theory Spec2Isabelle
  imports Main
begin

section \<open>Attendance calendar of the employee self-service app\<close>

text \<open>
  The development embeds the attendance calendar component (the status reconciler
  \<open>processAttendanceData\<close>, the fetch cycle \<open>fetchMonthlyRecords\<close>, the edit-window gate
  \<open>isWithinLast7Days\<close> / \<open>handleDayClick\<close>, the entry submitter \<open>handleSubmitEntry\<close> and the
  grid builder \<open>renderCalendarGrid\<close>) and states its properties.

  Conventions of the embedding:
  \<^item> JavaScript strings are \<open>string\<close>: lists of code units below 256.
  \<^item> A field that may be \<open>undefined\<close> or \<open>null\<close> is an \<open>option\<close>, with \<open>None\<close> for both.
  \<^item> A handler is a function from the state of the component (and the outcomes of the
    requests it awaits) to the new state and the list of its effects, in order.
  \<^item> The clock and the time zone of the device are parameters: \<open>now\<close> is the time value of
    \<open>new Date()\<close>, and \<open>tz\<close> is the offset of local time from UTC in minutes, the same all
    year (no daylight saving time).
  \<^item> The object \<open>dailyData\<close> is a map from date keys to entries; the order of its keys plays
    no role, since the last pass treats every entry on its own.
\<close>

subsection \<open>Strings and numbers of the platform\<close>

text \<open>JavaScript truthiness of a possibly missing string: missing and the empty string are falsy.\<close>

definition truthy :: "string option \<Rightarrow> bool" where
  "truthy v = (case v of None \<Rightarrow> False | Some s \<Rightarrow> s \<noteq> [])"

text \<open>The regular-expression classes \<open>\d\<close> and \<open>\s\<close> (tab, LF, VT, FF, CR, space, NBSP).\<close>

definition isDigit :: "char \<Rightarrow> bool" where
  "isDigit c = (48 \<le> (of_char c :: nat) \<and> (of_char c :: nat) \<le> 57)"

definition isSpace :: "char \<Rightarrow> bool" where
  "isSpace c = ((of_char c :: nat) \<in> {9, 10, 11, 12, 13, 32, 160})"

definition digitVal :: "char \<Rightarrow> int" where
  "digitVal c = int (of_char c) - 48"

text \<open>\<open>parseInt(s, 10)\<close> on a string of decimal digits.\<close>

definition parseInt :: "string \<Rightarrow> int" where
  "parseInt s = foldl (\<lambda>a c. 10 * a + digitVal c) 0 s"

text \<open>\<open>String(n)\<close> for an integer.\<close>

fun showNat :: "nat \<Rightarrow> string" where
  "showNat n = (if n < 10 then [char_of (48 + n)] else showNat (n div 10) @ [char_of (48 + n mod 10)])"

declare showNat.simps [simp del]

definition String :: "int \<Rightarrow> string" where
  "String i = (if i < 0 then CHR ''-'' # showNat (nat (- i)) else showNat (nat i))"

text \<open>\<open>s.padStart(n, '0')\<close>.\<close>

definition padStart :: "nat \<Rightarrow> string \<Rightarrow> string" where
  "padStart n s = replicate (n - length s) (CHR ''0'') @ s"

text \<open>\<open>toLowerCase\<close> and \<open>toUpperCase\<close> on code units below 256; a character whose image
  lies beyond this range is left as it is.\<close>

definition lowerChar :: "char \<Rightarrow> char" where
  "lowerChar c = (let n = (of_char c :: nat) in
     if (65 \<le> n \<and> n \<le> 90) \<or> (192 \<le> n \<and> n \<le> 222 \<and> n \<noteq> 215) then char_of (n + 32) else c)"

definition upperChar :: "char \<Rightarrow> char" where
  "upperChar c = (let n = (of_char c :: nat) in
     if (97 \<le> n \<and> n \<le> 122) \<or> (224 \<le> n \<and> n \<le> 254 \<and> n \<noteq> 247) then char_of (n - 32) else c)"

definition toLowerCase :: "string \<Rightarrow> string" where
  "toLowerCase s = map lowerChar s"

definition toUpperCase :: "string \<Rightarrow> string" where
  "toUpperCase s = map upperChar s"

text \<open>\<open>s.replace(/\s+/g, '_')\<close>: every maximal run of white space becomes one underscore.\<close>

function replaceSpaces :: "string \<Rightarrow> string" where
  "replaceSpaces [] = []"
| "replaceSpaces (c # cs) =
     (if isSpace c then CHR ''_'' # replaceSpaces (dropWhile isSpace cs)
      else c # replaceSpaces cs)"
  by pat_completeness auto
termination
  by (relation "measure length") (auto simp: less_Suc_eq_le length_dropWhile_le)

subsection \<open>The platform's Date\<close>

text \<open>
  A Date is its time value, milliseconds since 1970-01-01T00:00:00Z; an Invalid Date is
  \<open>None\<close>. The device's time zone is a fixed offset \<open>tz\<close>, in minutes east of UTC (330 for
  India). Day numbers count days since 1970-01-01; months of the civil functions are 1..12.
\<close>

definition msPerDay :: int where
  "msPerDay = 1000 * 60 * 60 * 24"

definition days_from_civil :: "int \<Rightarrow> int \<Rightarrow> int \<Rightarrow> int" where
  "days_from_civil y m d =
     (let y' = (if m \<le> 2 then y - 1 else y);
          era = y' div 400;
          yoe = y' - era * 400;
          doy = (153 * (if m > 2 then m - 3 else m + 9) + 2) div 5 + d - 1;
          doe = yoe * 365 + yoe div 4 - yoe div 100 + doy
      in era * 146097 + doe - 719468)"

text \<open>The year that begins on 1 March (before the shift of January and February into
  the next year) and the day within it, counted from 0, of a day number.\<close>

definition yearFromMarch :: "int \<Rightarrow> int \<times> int" where
  "yearFromMarch z =
     (let z' = z + 719468;
          era = z' div 146097;
          doe = z' - era * 146097;
          yoe = (doe - doe div 1460 + doe div 36524 - doe div 146096) div 365
      in (yoe + era * 400, doe - (365 * yoe + yoe div 4 - yoe div 100)))"

definition civil_from_days :: "int \<Rightarrow> int \<times> int \<times> int" where
  "civil_from_days z =
     (case yearFromMarch z of (y, doy) \<Rightarrow>
        (let mp = (5 * doy + 2) div 153;
             d = doy - (153 * mp + 2) div 5 + 1;
             m = (if mp < 10 then mp + 3 else mp - 9)
         in (if m \<le> 2 then y + 1 else y, m, d)))"

definition monthLength :: "int \<Rightarrow> int \<Rightarrow> int" where
  "monthLength y m =
     (if m = 12 then days_from_civil (y + 1) 1 1 else days_from_civil y (m + 1) 1)
       - days_from_civil y m 1"

text \<open>The UTC and the local day number of a time value.\<close>

definition utcDay :: "int \<Rightarrow> int" where
  "utcDay t = t div msPerDay"

definition localDay :: "int \<Rightarrow> int \<Rightarrow> int" where
  "localDay tz t = (t + tz * 60000) div msPerDay"

text \<open>\<open>new Date(year, month, day)\<close>: local midnight; the month is 0-based and overflows
  into the year, the day counts from 1 and day 0 is the last day of the month before.\<close>

definition newDateYMD :: "int \<Rightarrow> int \<Rightarrow> int \<Rightarrow> int \<Rightarrow> int" where
  "newDateYMD tz year month day =
     (days_from_civil (year + month div 12) (month mod 12 + 1) 1 + day - 1) * msPerDay
       - tz * 60000"

definition getFullYear :: "int \<Rightarrow> int \<Rightarrow> int" where
  "getFullYear tz t = fst (civil_from_days (localDay tz t))"

definition getMonth :: "int \<Rightarrow> int \<Rightarrow> int" where
  "getMonth tz t = fst (snd (civil_from_days (localDay tz t))) - 1"

definition getDate :: "int \<Rightarrow> int \<Rightarrow> int" where
  "getDate tz t = snd (snd (civil_from_days (localDay tz t)))"

definition getDay :: "int \<Rightarrow> int \<Rightarrow> int" where
  "getDay tz t = (localDay tz t + 4) mod 7"

text \<open>\<open>d.setHours(0, 0, 0, 0)\<close>: midnight, local time, of the local day of \<open>d\<close>.\<close>

definition setHours0 :: "int \<Rightarrow> int \<Rightarrow> int" where
  "setHours0 tz t = localDay tz t * msPerDay - tz * 60000"

text \<open>The year of an ISO string: four digits from 0 to 9999, else a sign and six digits.\<close>

definition isoYear :: "int \<Rightarrow> string" where
  "isoYear y =
     (if 0 \<le> y \<and> y \<le> 9999 then padStart 4 (String y)
      else (if y < 0 then CHR ''-'' else CHR ''+'') # padStart 6 (String (abs y)))"

text \<open>\<open>d.toISOString().split('T')[0]\<close>: the calendar date of \<open>d\<close> in UTC.\<close>

definition toISODate :: "int \<Rightarrow> string" where
  "toISODate t =
     (case civil_from_days (utcDay t) of (y, m, d) \<Rightarrow>
        isoYear y @ ''-'' @ padStart 2 (String m) @ ''-'' @ padStart 2 (String d))"

text \<open>
  \<open>new Date(s)\<close> for well-formed date strings of two kinds. A date-only form \<open>YYYY-MM-DD\<close>
  is midnight UTC. A date-time form is the date, a \<open>T\<close> or a space, the time as \<open>HH:MM\<close>,
  \<open>HH:MM:SS\<close> or \<open>HH:MM:SS.fff\<close> (the fraction is dropped here), and an optional zone, \<open>Z\<close>
  or \<open>+HH:MM\<close> or \<open>-HH:MM\<close>; without a zone it is local time. The backend's timestamps are
  \<open>YYYY-MM-DD HH:MM:SS\<close>; the form with the space is not in the language standard, and the
  engines read it as they read the form with \<open>T\<close>.

  The result \<open>None\<close> is the Invalid Date. It is certain for a string that is not of these
  forms at all. For a string of these forms with a field out of range (30 February, hour 25,
  minute 99) the engines differ, some roll the field over into the next unit; the model takes
  the standard's reading, an Invalid Date, and no closed instance below parses such a string.
\<close>

definition allDigits :: "string \<Rightarrow> bool" where
  "allDigits s = (s \<noteq> [] \<and> list_all isDigit s)"

definition parseYMD :: "string \<Rightarrow> int option" where
  "parseYMD s =
     (if length s = 10 \<and> allDigits (take 4 s) \<and> s ! 4 = CHR ''-'' \<and> allDigits (take 2 (drop 5 s))
         \<and> s ! 7 = CHR ''-'' \<and> allDigits (drop 8 s)
      then (let y = parseInt (take 4 s); m = parseInt (take 2 (drop 5 s)); d = parseInt (drop 8 s)
            in if 1 \<le> m \<and> m \<le> 12 \<and> 1 \<le> d \<and> d \<le> monthLength y m
               then Some (days_from_civil y m d) else None)
      else None)"

text \<open>The time of day in milliseconds.\<close>

definition parseHMS :: "string \<Rightarrow> int option" where
  "parseHMS s =
     (if 5 \<le> length s \<and> allDigits (take 2 s) \<and> s ! 2 = CHR '':'' \<and> allDigits (take 2 (drop 3 s))
         \<and> (length s = 5
              \<or> (8 \<le> length s \<and> s ! 5 = CHR '':'' \<and> allDigits (take 2 (drop 6 s))
                  \<and> (length s = 8 \<or> (s ! 8 = CHR ''.'' \<and> allDigits (drop 9 s)))))
      then (let h = parseInt (take 2 s); mi = parseInt (take 2 (drop 3 s));
                sec = (if length s = 5 then 0 else parseInt (take 2 (drop 6 s)))
            in if (h \<le> 23 \<and> mi \<le> 59 \<and> sec \<le> 59) \<or> (h = 24 \<and> mi = 0 \<and> sec = 0)
               then Some ((h * 60 + mi) * 60000 + sec * 1000) else None)
      else None)"

text \<open>The offset from UTC, in minutes, that a zone suffix denotes; the device's own offset
  when there is no suffix.\<close>

definition parseZone :: "int \<Rightarrow> string \<Rightarrow> int option" where
  "parseZone tz z =
     (if z = [] then Some tz
      else if z = ''Z'' then Some 0
      else if length z = 6 \<and> (z ! 0 = CHR ''+'' \<or> z ! 0 = CHR ''-'')
                \<and> allDigits (take 2 (drop 1 z)) \<and> z ! 3 = CHR '':'' \<and> allDigits (drop 4 z)
                \<and> parseInt (take 2 (drop 1 z)) \<le> 23 \<and> parseInt (drop 4 z) \<le> 59
      then (let offset = parseInt (take 2 (drop 1 z)) * 60 + parseInt (drop 4 z)
            in Some (if z ! 0 = CHR ''-'' then - offset else offset))
      else None)"

definition isTimeChar :: "char \<Rightarrow> bool" where
  "isTimeChar c = (isDigit c \<or> c = CHR '':'' \<or> c = CHR ''.'')"

definition newDate :: "int \<Rightarrow> string \<Rightarrow> int option" where
  "newDate tz s =
     (if length s = 10 then map_option (\<lambda>d. d * msPerDay) (parseYMD s)
      else if 10 < length s \<and> (s ! 10 = CHR '' '' \<or> s ! 10 = CHR ''T'') then
        (case (parseYMD (take 10 s), parseHMS (takeWhile isTimeChar (drop 11 s)),
               parseZone tz (dropWhile isTimeChar (drop 11 s))) of
           (Some d, Some ms, Some offset) \<Rightarrow> Some (d * msPerDay + ms - offset * 60000)
         | _ \<Rightarrow> None)
      else None)"

subsection \<open>Data model of the calendar component\<close>

text \<open>The fields of an \<open>Attendance\<close> document and of an \<open>EmployeeCheckin\<close> document that the
  component reads. The \<open>status\<close> of an Attendance record is the field \<open>att_status\<close> here, since
  \<open>DayData\<close> has a \<open>status\<close> of its own.\<close>

record Attendance =
  attendance_date :: "string option"
  att_status :: "string option"

record EmployeeCheckin =
  time :: "string option"
  log_type :: string

datatype DayStatus = Present | Incomplete | Absent | OnLeave | HalfDay | WorkFromHome

record DayData =
  date :: string
  checkIns :: "string list"
  checkOuts :: "string list"
  status :: DayStatus
  attendanceStatus :: "string option"
  isWFH :: bool
  isOD :: bool

type_synonym ProcessedData = "string \<rightharpoonup> DayData"

subsection \<open>The status reconciler\<close>

text \<open>The entry that both passes create for a date key that has none yet.\<close>

definition newDayData :: "string set \<Rightarrow> string set \<Rightarrow> string \<Rightarrow> DayData" where
  "newDayData wfhDateSet odDateSet dateKey =
     \<lparr>date = dateKey, checkIns = [], checkOuts = [], status = Absent, attendanceStatus = None,
      isWFH = (dateKey \<in> wfhDateSet), isOD = (dateKey \<in> odDateSet)\<rparr>"

definition getOrCreate :: "string set \<Rightarrow> string set \<Rightarrow> ProcessedData \<Rightarrow> string \<Rightarrow> DayData" where
  "getOrCreate wfhDateSet odDateSet dailyData dateKey =
     (case dailyData dateKey of None \<Rightarrow> newDayData wfhDateSet odDateSet dateKey | Some d \<Rightarrow> d)"

text \<open>\<open>record.status?.toLowerCase().replace(/\s+/g, '_')\<close>.\<close>

definition normalizeStatus :: "string option \<Rightarrow> string option" where
  "normalizeStatus v = map_option (\<lambda>s. replaceSpaces (toLowerCase s)) v"

text \<open>The chain of comparisons that sets the initial status from an Attendance record; an
  unrecognized value leaves the status as it is.\<close>

definition setInitialStatus :: "string option \<Rightarrow> DayData \<Rightarrow> DayData" where
  "setInitialStatus st d =
     (if st = Some ''on_leave'' then d\<lparr>status := OnLeave\<rparr>
      else if st = Some ''half_day'' then d\<lparr>status := HalfDay\<rparr>
      else if st = Some ''work_from_home'' then d\<lparr>status := WorkFromHome\<rparr>
      else if st = Some ''present'' then d\<lparr>status := Present\<rparr>
      else if st = Some ''absent'' then d\<lparr>status := Absent\<rparr>
      else d)"

text \<open>The body of the first \<open>forEach\<close>, over the Attendance records.\<close>

definition attendanceStep ::
  "string set \<Rightarrow> string set \<Rightarrow> ProcessedData \<Rightarrow> Attendance \<Rightarrow> ProcessedData" where
  "attendanceStep wfhDateSet odDateSet dailyData r =
     (if \<not> truthy (attendance_date r) then dailyData
      else
        (let dateKey = the (attendance_date r);
             d = getOrCreate wfhDateSet odDateSet dailyData dateKey;
             st = normalizeStatus (att_status r)
         in dailyData(dateKey \<mapsto> setInitialStatus st (d\<lparr>attendanceStatus := st\<rparr>))))"

text \<open>The body of the second \<open>forEach\<close>, over the check-in records. The date key is the UTC
  date of the parsed time, as \<open>toISOString\<close> gives it.\<close>

definition checkinStep ::
  "int \<Rightarrow> string set \<Rightarrow> string set \<Rightarrow> ProcessedData \<Rightarrow> EmployeeCheckin \<Rightarrow> ProcessedData" where
  "checkinStep tz wfhDateSet odDateSet dailyData r =
     (if \<not> truthy (time r) then dailyData
      else
        (case newDate tz (the (time r)) of
           None \<Rightarrow> dailyData
         | Some recordDate \<Rightarrow>
             (let dateKey = toISODate recordDate;
                  d = getOrCreate wfhDateSet odDateSet dailyData dateKey
              in if log_type r = ''IN''
                 then dailyData(dateKey \<mapsto> d\<lparr>checkIns := checkIns d @ [the (time r)]\<rparr>)
                 else if log_type r = ''OUT''
                 then dailyData(dateKey \<mapsto> d\<lparr>checkOuts := checkOuts d @ [the (time r)]\<rparr>)
                 else dailyData(dateKey \<mapsto> d))))"

text \<open>The body of the third \<open>forEach\<close>, over the keys of \<open>dailyData\<close>.\<close>

definition finalStatus :: "DayData \<Rightarrow> DayData" where
  "finalStatus dayData =
     (if truthy (attendanceStatus dayData)
         \<and> the (attendanceStatus dayData) \<in> set [''on_leave'', ''half_day'', ''work_from_home'']
      then dayData
      else
        (let hasCheckIn = (length (checkIns dayData) > 0);
             hasCheckOut = (length (checkOuts dayData) > 0)
         in if hasCheckIn \<and> hasCheckOut then
              (if length (checkOuts dayData) \<ge> length (checkIns dayData)
               then dayData\<lparr>status := Present\<rparr>
               else dayData\<lparr>status := Incomplete\<rparr>)
            else if hasCheckIn \<and> \<not> hasCheckOut then dayData\<lparr>status := Incomplete\<rparr>
            else if \<not> hasCheckIn \<and> hasCheckOut then dayData\<lparr>status := Incomplete\<rparr>
            else if \<not> truthy (attendanceStatus dayData) then dayData\<lparr>status := Absent\<rparr>
            else dayData))"

definition attendancePass ::
  "string set \<Rightarrow> string set \<Rightarrow> Attendance list \<Rightarrow> ProcessedData \<Rightarrow> ProcessedData" where
  "attendancePass wfhDateSet odDateSet attendanceRecords dailyData =
     foldl (attendanceStep wfhDateSet odDateSet) dailyData attendanceRecords"

definition checkinPass ::
  "int \<Rightarrow> string set \<Rightarrow> string set \<Rightarrow> EmployeeCheckin list \<Rightarrow> ProcessedData \<Rightarrow> ProcessedData" where
  "checkinPass tz wfhDateSet odDateSet records dailyData =
     foldl (checkinStep tz wfhDateSet odDateSet) dailyData records"

definition processAttendanceData ::
  "int \<Rightarrow> EmployeeCheckin list \<Rightarrow> Attendance list \<Rightarrow> string set \<Rightarrow> string set \<Rightarrow> ProcessedData" where
  "processAttendanceData tz records attendanceRecords wfhDateSet odDateSet =
     (\<lambda>dateKey. map_option finalStatus
        (checkinPass tz wfhDateSet odDateSet records
           (attendancePass wfhDateSet odDateSet attendanceRecords Map.empty) dateKey))"

text \<open>The resolved status of a date, when the date has an entry.\<close>

definition resolvedStatus ::
  "int \<Rightarrow> EmployeeCheckin list \<Rightarrow> Attendance list \<Rightarrow> string set \<Rightarrow> string set \<Rightarrow> string
     \<Rightarrow> DayStatus option" where
  "resolvedStatus tz records attendanceRecords wfhDateSet odDateSet dateKey =
     map_option status
       (processAttendanceData tz records attendanceRecords wfhDateSet odDateSet dateKey)"

text \<open>Auxiliary notions for stating properties of the second pass: the date key under which
  \<open>checkinStep\<close> files a check-in record (\<open>None\<close> when the record is skipped), and the times of
  the IN and of the OUT records filed under a date key, in the order of the input.\<close>

definition eventDateKey :: "int \<Rightarrow> EmployeeCheckin \<Rightarrow> string option" where
  "eventDateKey tz r =
     (if \<not> truthy (time r) then None else map_option toISODate (newDate tz (the (time r))))"

definition insOf :: "int \<Rightarrow> string \<Rightarrow> EmployeeCheckin list \<Rightarrow> string list" where
  "insOf tz k records =
     map (\<lambda>r. the (time r))
       (filter (\<lambda>r. eventDateKey tz r = Some k \<and> log_type r = ''IN'') records)"

definition outsOf :: "int \<Rightarrow> string \<Rightarrow> EmployeeCheckin list \<Rightarrow> string list" where
  "outsOf tz k records =
     map (\<lambda>r. the (time r))
       (filter (\<lambda>r. eventDateKey tz r = Some k \<and> log_type r = ''OUT'') records)"

subsection \<open>Date keys in local time\<close>

text \<open>The date key the component builds from a year, a 0-based month and a day:
  \<open>`${year}-${String(month + 1).padStart(2, '0')}-${String(day).padStart(2, '0')}`\<close>.\<close>

definition formatDateKey :: "int \<Rightarrow> int \<Rightarrow> int \<Rightarrow> string" where
  "formatDateKey year month day =
     String year @ ''-'' @ padStart 2 (String (month + 1)) @ ''-'' @ padStart 2 (String day)"

text \<open>The key of the local calendar date of a Date, as the expansion of the WFH and OD
  applications builds it from \<open>getFullYear\<close>, \<open>getMonth\<close> and \<open>getDate\<close>.\<close>

definition localDateKey :: "int \<Rightarrow> int \<Rightarrow> string" where
  "localDateKey tz t = formatDateKey (getFullYear tz t) (getMonth tz t) (getDate tz t)"

text \<open>The loop \<open>while (currentDate <= end) { add key; currentDate.setDate(getDate() + 1) }\<close>.
  With a fixed offset, the next local day is one day of milliseconds later.\<close>

function expandDates :: "int \<Rightarrow> int \<Rightarrow> int \<Rightarrow> string list" where
  "expandDates tz currentDate stop =
     (if currentDate \<le> stop
      then localDateKey tz currentDate # expandDates tz (currentDate + msPerDay) stop
      else [])"
  by pat_completeness auto
termination
  by (relation "measure (\<lambda>(tz, currentDate, stop). nat (stop - currentDate + 1))")
     (auto simp: msPerDay_def)

declare expandDates.simps [simp del]

text \<open>The days an application covers; an Invalid Date on either side makes the comparison
  false, so the loop body never runs.\<close>

definition applicationDates :: "int \<Rightarrow> string \<Rightarrow> string \<Rightarrow> string list" where
  "applicationDates tz startDate endDate =
     (case (newDate tz startDate, newDate tz endDate) of
        (Some start, Some stop) \<Rightarrow> expandDates tz start stop
      | _ \<Rightarrow> [])"

record WFHApplication =
  wfh_start_date :: string
  wfh_end_date :: string

record ODApplication =
  od_start_date :: string
  od_end_date :: string

subsection \<open>Component state and effects\<close>

datatype LogType = IN | OUT

record CalendarState =
  monthlyRecords :: "EmployeeCheckin list"
  processedData :: ProcessedData
  wfhDates :: "string set"
  odDates :: "string set"
  refreshing :: bool
  showDialog :: bool
  selectedDate :: "string option"
  selectedDayData :: "DayData option"
  entryTime :: string
  isSubmitting :: bool
  allowedLogType :: "LogType option"

text \<open>The state the component starts with, from its \<open>useState\<close> calls.\<close>

definition initialState :: CalendarState where
  "initialState =
     \<lparr>monthlyRecords = [], processedData = Map.empty, wfhDates = {}, odDates = {},
      refreshing = False, showDialog = False, selectedDate = None, selectedDayData = None,
      entryTime = [], isSubmitting = False, allowedLogType = None\<rparr>"

text \<open>What a handler does besides updating the state: \<open>Alert.alert(title, message)\<close>, and the
  two requests to the backend, \<open>getList(doctype, ...)\<close> and
  \<open>createDoc('Employee Checkin', {employee, time, log_type})\<close>.\<close>

datatype Effect = Alert string string | GetList string | CreateDoc string string LogType

definition isNetworkCall :: "Effect \<Rightarrow> bool" where
  "isNetworkCall e = (case e of Alert _ _ \<Rightarrow> False | GetList _ \<Rightarrow> True | CreateDoc _ _ _ \<Rightarrow> True)"


text \<open>A value thrown by a request: an \<open>Error\<close> with its message, or any other value.
  \<open>error instanceof Error ? error.message : 'Unknown error'\<close> is \<open>errorText\<close>.\<close>

datatype Thrown = ErrorObject string | OtherValue

definition errorText :: "Thrown \<Rightarrow> string" where
  "errorText error = (case error of ErrorObject message \<Rightarrow> message | OtherValue \<Rightarrow> ''Unknown error'')"

text \<open>The outcome of a \<open>getList\<close> promise: rejected with a thrown value, or fulfilled with a
  list (\<open>None\<close> for a missing one, which \<open>x || []\<close> reads as the empty list).\<close>

type_synonym 'a Fetched = "Thrown + 'a list option"

definition orEmpty :: "'a list option \<Rightarrow> 'a list" where
  "orEmpty v = (case v of None \<Rightarrow> [] | Some xs \<Rightarrow> xs)"

subsection \<open>The fetch cycle\<close>

text \<open>\<open>Promise.all\<close> over the four requests. It is fulfilled when all four are, and rejected
  with the reason of the promise that rejects first otherwise; \<open>order\<close> lists the indices of
  the promises in the order they settle (indices it leaves out settle last, in array order).\<close>

definition rejection :: "Thrown + 'a \<Rightarrow> Thrown option" where
  "rejection r = (case r of Inl e \<Rightarrow> Some e | Inr _ \<Rightarrow> None)"

definition firstRejection :: "nat list \<Rightarrow> Thrown option list \<Rightarrow> Thrown option" where
  "firstRejection order rs =
     (case filter (\<lambda>i. i < length rs \<and> rs ! i \<noteq> None) (order @ [0..<length rs]) of
        [] \<Rightarrow> None
      | i # _ \<Rightarrow> rs ! i)"

definition promiseAll4 ::
  "nat list \<Rightarrow> Thrown + 'a \<Rightarrow> Thrown + 'b \<Rightarrow> Thrown + 'c \<Rightarrow> Thrown + 'd
     \<Rightarrow> Thrown + ('a \<times> 'b \<times> 'c \<times> 'd)" where
  "promiseAll4 order a b c d =
     (case (a, b, c, d) of
        (Inr w, Inr x, Inr y, Inr z) \<Rightarrow> Inr (w, x, y, z)
      | _ \<Rightarrow> Inl (the (firstRejection order [rejection a, rejection b, rejection c, rejection d])))"

definition fetchRequests :: "Effect list" where
  "fetchRequests = [GetList ''Employee Checkin'', GetList ''Attendance'',
     GetList ''Work From Home Application'', GetList ''OD Application'']"

definition wfhDateSetOf :: "int \<Rightarrow> WFHApplication list \<Rightarrow> string set" where
  "wfhDateSetOf tz wfhRecords =
     set (concat (map (\<lambda>wfh. applicationDates tz (wfh_start_date wfh) (wfh_end_date wfh)) wfhRecords))"

definition odDateSetOf :: "int \<Rightarrow> ODApplication list \<Rightarrow> string set" where
  "odDateSetOf tz odRecords =
     set (concat (map (\<lambda>od. applicationDates tz (od_start_date od) (od_end_date od)) odRecords))"

text \<open>\<open>fetchMonthlyRecords\<close>, given the outcomes of its four requests. The employee is the
  \<open>name\<close> of \<open>currentEmployee\<close>, \<open>None\<close> when there is no current employee.\<close>

definition fetchMonthlyRecords ::
  "int \<Rightarrow> string option \<Rightarrow> nat list \<Rightarrow> EmployeeCheckin Fetched \<Rightarrow> Attendance Fetched
     \<Rightarrow> WFHApplication Fetched \<Rightarrow> ODApplication Fetched \<Rightarrow> CalendarState
     \<Rightarrow> CalendarState \<times> Effect list" where
  "fetchMonthlyRecords tz currentEmployee order recordsF attendanceF wfhF odF st =
     (if currentEmployee = None then (st, [])
      else
        (case promiseAll4 order recordsF attendanceF wfhF odF of
           Inl error \<Rightarrow>
             (st, fetchRequests
                    @ [Alert ''Error'' (''Failed to fetch calendar data: '' @ errorText error)])
         | Inr (records, attendanceRecords, wfhRecords, odRecords) \<Rightarrow>
             (let wfhDateSet = wfhDateSetOf tz (orEmpty wfhRecords);
                  odDateSet = odDateSetOf tz (orEmpty odRecords);
                  processed = processAttendanceData tz (orEmpty records)
                                (orEmpty attendanceRecords) wfhDateSet odDateSet
              in (st\<lparr>wfhDates := wfhDateSet, odDates := odDateSet,
                      monthlyRecords := orEmpty records, processedData := processed\<rparr>,
                  fetchRequests))))"

subsection \<open>The edit-window gate\<close>

text \<open>\<open>isWithinLast7Days\<close>, with \<open>now\<close> the value of \<open>new Date()\<close>. \<open>Math.floor\<close> of the
  quotient is the integer quotient. On an Invalid Date every comparison is false.\<close>

definition isWithinLast7Days :: "int \<Rightarrow> int \<Rightarrow> string \<Rightarrow> bool" where
  "isWithinLast7Days tz now dateKey =
     (case newDate tz dateKey of
        None \<Rightarrow> False
      | Some parsed \<Rightarrow>
          (let today = setHours0 tz now;
               selected = setHours0 tz parsed;
               diffTime = today - selected;
               diffDays = diffTime div (1000 * 60 * 60 * 24)
           in diffDays \<ge> 0 \<and> diffDays \<le> 6))"

definition getHours :: "int \<Rightarrow> int \<Rightarrow> int" where
  "getHours tz t = ((t + tz * 60000) mod msPerDay) div 3600000"

definition getMinutes :: "int \<Rightarrow> int \<Rightarrow> int" where
  "getMinutes tz t = ((t + tz * 60000) mod 3600000) div 60000"

text \<open>\<open>(dayData?.checkIns.length || 0) > 0\<close> and the same for the check-outs.\<close>

definition hasCheckIn :: "DayData option \<Rightarrow> bool" where
  "hasCheckIn dayData = (case dayData of None \<Rightarrow> False | Some d \<Rightarrow> length (checkIns d) > 0)"

definition hasCheckOut :: "DayData option \<Rightarrow> bool" where
  "hasCheckOut dayData = (case dayData of None \<Rightarrow> False | Some d \<Rightarrow> length (checkOuts d) > 0)"

text \<open>The default entry time, the current time in 12-hour form.\<close>

definition defaultEntryTime :: "int \<Rightarrow> int \<Rightarrow> string" where
  "defaultEntryTime tz now =
     (let hours = getHours tz now;
          minutes = getMinutes tz now;
          period = (if hours \<ge> 12 then ''PM'' else ''AM'');
          hours12 = (if hours mod 12 = 0 then 12 else hours mod 12)
      in padStart 2 (String hours12) @ '':'' @ padStart 2 (String minutes) @ '' '' @ period)"

text \<open>\<open>handleDayClick(day, dayData)\<close>, with \<open>currentMonth\<close> the Date of the viewed month.\<close>

definition handleDayClick ::
  "int \<Rightarrow> int \<Rightarrow> int \<Rightarrow> int \<Rightarrow> DayData option \<Rightarrow> CalendarState \<Rightarrow> CalendarState \<times> Effect list" where
  "handleDayClick tz now currentMonth day dayData st =
     (let dateKey = formatDateKey (getFullYear tz currentMonth) (getMonth tz currentMonth) day
      in if \<not> isWithinLast7Days tz now dateKey then (st, [])
         else
           (let allowed =
                  (if hasCheckIn dayData \<and> hasCheckOut dayData then None
                   else if hasCheckIn dayData \<and> \<not> hasCheckOut dayData then Some OUT
                   else if \<not> hasCheckIn dayData \<and> hasCheckOut dayData then Some IN
                   else Some IN)
            in (st\<lparr>selectedDate := Some dateKey, selectedDayData := dayData,
                    allowedLogType := allowed, entryTime := defaultEntryTime tz now,
                    showDialog := True\<rparr>, [])))"

text \<open>What the entry dialog shows, from the state: whether it is visible, the warning that
  both entries exist, the time input and the submit button.\<close>

record DialogView =
  visible :: bool
  alreadyCompleteWarning :: bool
  timeInput :: bool
  submitButton :: bool

definition dialogView :: "CalendarState \<Rightarrow> DialogView" where
  "dialogView st =
     \<lparr>visible = showDialog st,
      alreadyCompleteWarning = (allowedLogType st = None),
      timeInput = (allowedLogType st \<noteq> None),
      submitButton = (allowedLogType st \<noteq> None)\<rparr>"

subsection \<open>The entry submitter\<close>

text \<open>The match of \<open>/^(\d{1,2}):(\d{2})\s*(AM|PM)$/i\<close>: the three groups, or \<open>None\<close>.\<close>

definition matchEntryTime :: "string \<Rightarrow> (string \<times> string \<times> string) option" where
  "matchEntryTime s =
     (let n = length (takeWhile isDigit s) in
      if n = 1 \<or> n = 2 then
        (case drop n s of
           [] \<Rightarrow> None
         | c # r1 \<Rightarrow>
             if c = CHR '':'' \<and> length r1 \<ge> 2 \<and> isDigit (r1 ! 0) \<and> isDigit (r1 ! 1) then
               (let r2 = dropWhile isSpace (drop 2 r1)
                in if toUpperCase r2 = ''AM'' \<or> toUpperCase r2 = ''PM''
                   then Some (take n s, take 2 r1, r2) else None)
             else None)
      else None)"

text \<open>The conversion to 24-hour form of \<open>handleSubmitEntry\<close>.\<close>

definition time24Of :: "string \<times> string \<times> string \<Rightarrow> string" where
  "time24Of match =
     (case match of (m1, m2, m3) \<Rightarrow>
        (let hours0 = parseInt m1;
             minutes = m2;
             period = toUpperCase m3;
             hours = (if period = ''PM'' \<and> hours0 \<noteq> 12 then hours0 + 12
                      else if period = ''AM'' \<and> hours0 = 12 then 0
                      else hours0)
         in padStart 2 (String hours) @ '':'' @ minutes))"

definition logTypeWord :: "LogType \<Rightarrow> string \<Rightarrow> string \<Rightarrow> string" where
  "logTypeWord lt a b = (if lt = IN then a else b)"

text \<open>\<open>handleSubmitEntry\<close>, given the outcome of \<open>createDoc\<close> and the outcomes of the four
  requests of the refetch that follows a success.\<close>

definition handleSubmitEntry ::
  "int \<Rightarrow> string option \<Rightarrow> Thrown + unit \<Rightarrow> nat list \<Rightarrow> EmployeeCheckin Fetched
     \<Rightarrow> Attendance Fetched \<Rightarrow> WFHApplication Fetched \<Rightarrow> ODApplication Fetched \<Rightarrow> CalendarState
     \<Rightarrow> CalendarState \<times> Effect list" where
  "handleSubmitEntry tz currentEmployee created order recordsF attendanceF wfhF odF st =
     (if entryTime st = [] \<or> \<not> truthy (selectedDate st) \<or> currentEmployee = None
         \<or> allowedLogType st = None
      then (st, [Alert ''Error'' ''Please enter a valid time''])
      else
        (case matchEntryTime (entryTime st) of
           None \<Rightarrow>
             (st, [Alert ''Error''
                ''Please enter time in format HH:MM AM/PM (e.g., 09:30 AM or 05:30 PM)''])
         | Some match \<Rightarrow>
             (let time24 = time24Of match;
                  timestamp = the (selectedDate st) @ '' '' @ time24 @ '':00'';
                  lt = the (allowedLogType st);
                  request = CreateDoc (the currentEmployee) timestamp lt
              in case created of
                   Inl error \<Rightarrow>
                     (st\<lparr>isSubmitting := False\<rparr>,
                      [request,
                       Alert ''Error'' (''Failed to add '' @ logTypeWord lt ''check-in'' ''check-out''
                         @ '' record: '' @ errorText error)])
                 | Inr _ \<Rightarrow>
                     (let st1 = st\<lparr>isSubmitting := True, showDialog := False, entryTime := [],
                                   selectedDate := None, selectedDayData := None,
                                   allowedLogType := None\<rparr>;
                          fetched = fetchMonthlyRecords tz currentEmployee order recordsF
                                      attendanceF wfhF odF st1
                      in ((fst fetched)\<lparr>isSubmitting := False\<rparr>,
                          [request,
                           Alert ''Success'' (logTypeWord lt ''Check-in'' ''Check-out''
                             @ '' record added successfully!'')] @ snd fetched)))))"

subsection \<open>The calendar grid builder\<close>

record DayInfo =
  day :: int
  dateKey :: string
  data :: "DayData option"

text \<open>The cell of a day: \<open>{ day, dateKey, data: processedData[dateKey] }\<close>.\<close>

definition dayCell :: "int \<Rightarrow> int \<Rightarrow> ProcessedData \<Rightarrow> int \<Rightarrow> DayInfo option" where
  "dayCell year month pd d =
     Some \<lparr>day = d, dateKey = formatDateKey year month d, data = pd (formatDateKey year month d)\<rparr>"

text \<open>The body of the loop over the days of the month: a full week is pushed and a new one
  begun before the cell of the day is appended.\<close>

definition gridStep ::
  "int \<Rightarrow> int \<Rightarrow> ProcessedData \<Rightarrow> DayInfo option list list \<times> DayInfo option list \<Rightarrow> int
     \<Rightarrow> DayInfo option list list \<times> DayInfo option list" where
  "gridStep year month pd acc d =
     (case acc of (weeks, currentWeek) \<Rightarrow>
        if length currentWeek = 7 then (weeks @ [currentWeek], [dayCell year month pd d])
        else (weeks, currentWeek @ [dayCell year month pd d]))"

text \<open>The loop \<open>while (currentWeek.length < 7) currentWeek.push(null)\<close>.\<close>

function padWeek :: "'a option list \<Rightarrow> 'a option list" where
  "padWeek currentWeek =
     (if length currentWeek < 7 then padWeek (currentWeek @ [None]) else currentWeek)"
  by pat_completeness auto
termination
  by (relation "measure (\<lambda>w. 7 - length w)") auto

declare padWeek.simps [simp del]

text \<open>The three loops of \<open>renderCalendarGrid\<close>, from the weekday of the first day and the
  number of days of the month.\<close>

definition buildGrid ::
  "int \<Rightarrow> int \<Rightarrow> ProcessedData \<Rightarrow> int \<Rightarrow> int \<Rightarrow> DayInfo option list list" where
  "buildGrid year month pd startingDayOfWeek daysInMonth =
     (case foldl (gridStep year month pd) ([], replicate (nat startingDayOfWeek) None)
             [1..daysInMonth] of
        (weeks, currentWeek) \<Rightarrow> weeks @ [padWeek currentWeek])"

definition renderCalendarGrid :: "int \<Rightarrow> int \<Rightarrow> ProcessedData \<Rightarrow> DayInfo option list list" where
  "renderCalendarGrid tz currentMonth pd =
     (let year = getFullYear tz currentMonth;
          month = getMonth tz currentMonth;
          firstDay = newDateYMD tz year month 1;
          lastDay = newDateYMD tz year (month + 1) 0;
          daysInMonth = getDate tz lastDay;
          startingDayOfWeek = getDay tz firstDay
      in buildGrid year month pd startingDayOfWeek daysInMonth)"

section \<open>Checks of the platform model\<close>

text \<open>Known values of the Date functions: the epoch, a leap day, a weekday (2024-03-15 was a
  Friday), the last day of February as \<open>new Date(year, 2, 0)\<close> gives it, and the two readings
  of a date string.\<close>

lemma epoch_day: "days_from_civil 1970 1 1 = 0" "civil_from_days 0 = (1970, 1, 1)"
  by code_simp+

lemma leap_day: "civil_from_days (days_from_civil 2024 2 29) = (2024, 2, 29)"
  "civil_from_days (days_from_civil 2024 2 29 + 1) = (2024, 3, 1)"
  "civil_from_days (days_from_civil 2023 2 28 + 1) = (2023, 3, 1)"
  by code_simp+

lemma friday: "getDay 0 (newDateYMD 0 2024 2 15) = 5"
  by code_simp

lemma february_length: "getDate 330 (newDateYMD 330 2024 2 0) = 29"
  "getDate 330 (newDateYMD 330 2023 2 0) = 28"
  by code_simp+

lemma date_only_is_utc: "newDate 330 ''2024-03-09'' = Some 1709942400000"
  "newDate (- 300) ''2024-03-09'' = Some 1709942400000"
  by code_simp+

lemma date_time_is_local: "newDate 0 ''2024-03-09 00:00:00'' = Some 1709942400000"
  "newDate 330 ''2024-03-09 05:30:00'' = Some 1709942400000"
  "newDate 330 ''2024-03-09T05:30:00'' = Some 1709942400000"
  by code_simp+

lemma date_time_other_forms: "newDate 330 ''2024-03-09 05:30'' = Some 1709942400000"
  "newDate 330 ''2024-03-09T00:00:00Z'' = Some 1709942400000"
  "newDate (- 300) ''2024-03-09T05:30:00.000+05:30'' = Some 1709942400000"
  "newDate 330 ''2024-03-08T19:00:00-05:00'' = Some 1709942400000"
  by code_simp+

lemma not_a_date: "newDate 330 ''yesterday'' = None"
  by code_simp

text \<open>The pattern of the entry time on some texts.\<close>

lemma matchEntryTime_examples:
  "matchEntryTime ''09:30 AM'' = Some (''09'', ''30'', ''AM'')"
  "matchEntryTime ''5:30pm'' = Some (''5'', ''30'', ''pm'')"
  "matchEntryTime ''123:45 AM'' = None"
  "matchEntryTime ''09:30'' = None"
  "matchEntryTime ''09:30 AM '' = None"
  by code_simp+

lemma normalizeStatus_example: "normalizeStatus (Some ''Work From  Home'') = Some ''work_from_home''"
  by code_simp

section \<open>Properties of the status reconciler\<close>

lemma checkinStep_other:
  "eventDateKey tz r \<noteq> Some k \<Longrightarrow> checkinStep tz wfh od m r k = m k"
  by (auto simp: checkinStep_def eventDateKey_def Let_def split: option.splits)

lemma checkinStep_same:
  "eventDateKey tz r = Some k \<Longrightarrow>
   checkinStep tz wfh od m r k =
     Some ((getOrCreate wfh od m k)
       \<lparr>checkIns := checkIns (getOrCreate wfh od m k) @ insOf tz k [r],
        checkOuts := checkOuts (getOrCreate wfh od m k) @ outsOf tz k [r]\<rparr>)"
  by (auto simp: checkinStep_def eventDateKey_def insOf_def outsOf_def Let_def split: option.splits if_splits)

lemma insOf_Cons: "insOf tz k (r # rs) = insOf tz k [r] @ insOf tz k rs"
  by (simp add: insOf_def)

lemma outsOf_Cons: "outsOf tz k (r # rs) = outsOf tz k [r] @ outsOf tz k rs"
  by (simp add: outsOf_def)

lemma insOf_other: "eventDateKey tz r \<noteq> Some k \<Longrightarrow> insOf tz k [r] = []"
  by (simp add: insOf_def)

lemma outsOf_other: "eventDateKey tz r \<noteq> Some k \<Longrightarrow> outsOf tz k [r] = []"
  by (simp add: outsOf_def)

lemma checkinPass_Some:
  "m k = Some d \<Longrightarrow>
   checkinPass tz wfh od records m k =
     Some (d\<lparr>checkIns := checkIns d @ insOf tz k records,
             checkOuts := checkOuts d @ outsOf tz k records\<rparr>)"
proof (induction records arbitrary: m d)
  case Nil
  then show ?case by (simp add: checkinPass_def insOf_def outsOf_def)
next
  case (Cons r rs)
  show ?case
  proof (cases "eventDateKey tz r = Some k")
    case True
    let ?d' = "d\<lparr>checkIns := checkIns d @ insOf tz k [r], checkOuts := checkOuts d @ outsOf tz k [r]\<rparr>"
    have "checkinStep tz wfh od m r k = Some ?d'"
      using True Cons.prems by (simp add: checkinStep_same getOrCreate_def)
    from Cons.IH [of "checkinStep tz wfh od m r" ?d', OF this] show ?thesis
      by (simp add: checkinPass_def insOf_Cons [of tz k r rs] outsOf_Cons [of tz k r rs])
  next
    case False
    have "checkinStep tz wfh od m r k = Some d"
      using False Cons.prems by (simp add: checkinStep_other)
    from Cons.IH [of "checkinStep tz wfh od m r" d, OF this] show ?thesis
      using False
      by (simp add: checkinPass_def insOf_Cons [of tz k r rs] outsOf_Cons [of tz k r rs]
          insOf_other outsOf_other)
  qed
qed

lemma checkinPass_None:
  "m k = None \<Longrightarrow>
   checkinPass tz wfh od records m k =
     (if \<exists>r \<in> set records. eventDateKey tz r = Some k
      then Some ((newDayData wfh od k)\<lparr>checkIns := insOf tz k records,
                                       checkOuts := outsOf tz k records\<rparr>)
      else None)"
proof (induction records arbitrary: m)
  case Nil
  then show ?case by (simp add: checkinPass_def)
next
  case (Cons r rs)
  show ?case
  proof (cases "eventDateKey tz r = Some k")
    case True
    let ?d' = "(newDayData wfh od k)\<lparr>checkIns := insOf tz k [r], checkOuts := outsOf tz k [r]\<rparr>"
    have step: "checkinStep tz wfh od m r k = Some ?d'"
      using True Cons.prems by (simp add: checkinStep_same getOrCreate_def newDayData_def)
    have "checkinPass tz wfh od (r # rs) m k = checkinPass tz wfh od rs (checkinStep tz wfh od m r) k"
      by (simp add: checkinPass_def)
    also have "\<dots> = Some (?d'\<lparr>checkIns := checkIns ?d' @ insOf tz k rs,
                               checkOuts := checkOuts ?d' @ outsOf tz k rs\<rparr>)"
      by (rule checkinPass_Some [of "checkinStep tz wfh od m r" k ?d', OF step])
    finally show ?thesis
      using True
      by (simp add: insOf_Cons [of tz k r rs] outsOf_Cons [of tz k r rs])
  next
    case False
    have "checkinStep tz wfh od m r k = None"
      using False Cons.prems by (simp add: checkinStep_other)
    from Cons.IH [of "checkinStep tz wfh od m r", OF this] show ?thesis
      using False
      by (simp add: checkinPass_def insOf_Cons [of tz k r rs] outsOf_Cons [of tz k r rs]
          insOf_other outsOf_other)
  qed
qed


lemma attendanceStep_other:
  "attendance_date x \<noteq> Some k \<Longrightarrow> attendanceStep wfh od m x k = m k"
  by (auto simp: attendanceStep_def Let_def truthy_def split: option.splits)

lemma attendanceStep_same:
  "attendance_date x = Some k \<Longrightarrow> k \<noteq> [] \<Longrightarrow>
   attendanceStep wfh od m x k =
     Some (setInitialStatus (normalizeStatus (att_status x))
            ((getOrCreate wfh od m k)\<lparr>attendanceStatus := normalizeStatus (att_status x)\<rparr>))"
  by (simp add: attendanceStep_def Let_def truthy_def)

lemma attendancePass_snoc:
  "attendancePass wfh od (xs @ [x]) m = attendanceStep wfh od (attendancePass wfh od xs m) x"
  by (simp add: attendancePass_def)

lemma attendancePass_untouched:
  "\<forall>x \<in> set xs. attendance_date x \<noteq> Some k \<Longrightarrow> attendancePass wfh od xs m k = m k"
  by (induction xs rule: rev_induct) (simp_all add: attendancePass_snoc attendanceStep_other, simp add: attendancePass_def)

lemma setInitialStatus_fields [simp]:
  "checkIns (setInitialStatus st d) = checkIns d"
  "checkOuts (setInitialStatus st d) = checkOuts d"
  "attendanceStatus (setInitialStatus st d) = attendanceStatus d"
  by (simp_all add: setInitialStatus_def)

lemma getOrCreate_noEvents:
  "(\<forall>d. m k = Some d \<longrightarrow> checkIns d = [] \<and> checkOuts d = []) \<Longrightarrow>
   checkIns (getOrCreate wfh od m k) = [] \<and> checkOuts (getOrCreate wfh od m k) = []"
  by (simp add: getOrCreate_def newDayData_def split: option.splits)

lemma attendanceStep_noEvents:
  assumes "\<forall>k d. m k = Some d \<longrightarrow> checkIns d = [] \<and> checkOuts d = []"
  shows "\<forall>k d. attendanceStep wfh od m x k = Some d \<longrightarrow> checkIns d = [] \<and> checkOuts d = []"
proof (intro allI impI)
  fix k d
  assume step: "attendanceStep wfh od m x k = Some d"
  show "checkIns d = [] \<and> checkOuts d = []"
  proof (cases "attendance_date x = Some k \<and> k \<noteq> []")
    case True
    then have "d = setInitialStatus (normalizeStatus (att_status x))
            ((getOrCreate wfh od m k)\<lparr>attendanceStatus := normalizeStatus (att_status x)\<rparr>)"
      using step by (simp add: attendanceStep_same)
    then show ?thesis
      using getOrCreate_noEvents [of m k wfh od] assms by simp
  next
    case False
    then have "attendanceStep wfh od m x k = m k"
      by (auto simp: attendanceStep_def Let_def truthy_def split: option.splits)
    then show ?thesis using step assms by simp
  qed
qed

lemma attendancePass_noEvents:
  "attendancePass wfh od xs Map.empty k = Some d \<Longrightarrow> checkIns d = [] \<and> checkOuts d = []"
proof -
  have "\<forall>k d. attendancePass wfh od xs Map.empty k = Some d \<longrightarrow> checkIns d = [] \<and> checkOuts d = []"
  proof (induction xs rule: rev_induct)
    case Nil
    show ?case by (simp add: attendancePass_def)
  next
    case (snoc x xs)
    show ?case
      unfolding attendancePass_snoc by (rule attendanceStep_noEvents [OF snoc.IH])
  qed
  then show "attendancePass wfh od xs Map.empty k = Some d \<Longrightarrow> checkIns d = [] \<and> checkOuts d = []"
    by blast
qed

lemma attendancePass_last:
  assumes "\<forall>x \<in> set post. attendance_date x \<noteq> Some k"
      and "attendance_date r = Some k" and "k \<noteq> []"
  shows "attendancePass wfh od (pre @ r # post) m k =
     Some (setInitialStatus (normalizeStatus (att_status r))
            ((getOrCreate wfh od (attendancePass wfh od pre m) k)
               \<lparr>attendanceStatus := normalizeStatus (att_status r)\<rparr>))"
proof -
  have "attendancePass wfh od (pre @ r # post) m
      = attendancePass wfh od post (attendanceStep wfh od (attendancePass wfh od pre m) r)"
    by (simp add: attendancePass_def)
  then show ?thesis
    using assms by (simp add: attendancePass_untouched attendanceStep_same)
qed

lemma attendancePass_attendanceStatus:
  "attendancePass wfh od xs Map.empty k = Some d \<Longrightarrow>
   attendanceStatus d \<in> normalizeStatus ` att_status ` {x \<in> set xs. attendance_date x = Some k}"
proof (induction xs arbitrary: d rule: rev_induct)
  case Nil
  then show ?case by (simp add: attendancePass_def)
next
  case (snoc x xs)
  show ?case
  proof (cases "attendance_date x = Some k")
    case True
    show ?thesis
    proof (cases "k = []")
      case True
      then have "attendanceStep wfh od (attendancePass wfh od xs Map.empty) x k
          = attendancePass wfh od xs Map.empty k"
        using \<open>attendance_date x = Some k\<close> by (simp add: attendanceStep_def truthy_def)
      then show ?thesis using snoc by (auto simp: attendancePass_snoc)
    next
      case False
      then show ?thesis
        using True snoc.prems by (auto simp: attendancePass_snoc attendanceStep_same)
    qed
  next
    case False
    then show ?thesis
      using snoc by (auto simp: attendancePass_snoc attendanceStep_other)
  qed
qed


lemma preFinal_Some:
  assumes "attendancePass wfh od att Map.empty k = Some d"
  shows "checkinPass tz wfh od records (attendancePass wfh od att Map.empty) k =
     Some (d\<lparr>checkIns := insOf tz k records, checkOuts := outsOf tz k records\<rparr>)"
  using checkinPass_Some [of "attendancePass wfh od att Map.empty" k d tz wfh od records, OF assms]
    attendancePass_noEvents [OF assms] by simp

lemma preFinal_None:
  assumes "attendancePass wfh od att Map.empty k = None"
  shows "checkinPass tz wfh od records (attendancePass wfh od att Map.empty) k =
     (if \<exists>r \<in> set records. eventDateKey tz r = Some k
      then Some ((newDayData wfh od k)\<lparr>checkIns := insOf tz k records,
                                       checkOuts := outsOf tz k records\<rparr>)
      else None)"
  by (rule checkinPass_None [of "attendancePass wfh od att Map.empty" k tz wfh od records, OF assms])

lemma preFinal_events:
  "checkinPass tz wfh od records (attendancePass wfh od att Map.empty) k = Some d \<Longrightarrow>
   checkIns d = insOf tz k records \<and> checkOuts d = outsOf tz k records"
  by (cases "attendancePass wfh od att Map.empty k")
     (auto simp: preFinal_Some preFinal_None split: if_splits)

lemma preFinal_attendanceStatus:
  assumes "checkinPass tz wfh od records (attendancePass wfh od att Map.empty) k = Some d"
  shows "attendanceStatus d = None \<or>
     attendanceStatus d \<in> normalizeStatus ` att_status ` {x \<in> set att. attendance_date x = Some k}"
proof (cases "attendancePass wfh od att Map.empty k")
  case None
  then show ?thesis
    using assms by (auto simp: preFinal_None newDayData_def split: if_splits)
next
  case (Some d0)
  then show ?thesis
    using assms attendancePass_attendanceStatus [OF Some] by (auto simp: preFinal_Some)
qed

lemma preFinal_no_record:
  assumes "checkinPass tz wfh od records (attendancePass wfh od att Map.empty) k = Some d"
      and "\<forall>x \<in> set att. attendance_date x \<noteq> Some k"
  shows "attendanceStatus d = None"
proof -
  have "attendancePass wfh od att Map.empty k = None"
    using assms(2) by (simp add: attendancePass_untouched)
  then show ?thesis
    using assms(1) by (auto simp: preFinal_None newDayData_def split: if_splits)
qed

lemma finalStatus_fields [simp]:
  "checkIns (finalStatus d) = checkIns d"
  "checkOuts (finalStatus d) = checkOuts d"
  "attendanceStatus (finalStatus d) = attendanceStatus d"
  by (simp_all add: finalStatus_def Let_def)

lemma finalStatus_derived:
  assumes "attendanceStatus d \<notin> {Some ''on_leave'', Some ''half_day'', Some ''work_from_home''}"
  shows "status (finalStatus d) =
     (if checkIns d \<noteq> [] \<and> checkOuts d \<noteq> [] then
        (if length (checkOuts d) \<ge> length (checkIns d) then Present else Incomplete)
      else if checkIns d \<noteq> [] \<or> checkOuts d \<noteq> [] then Incomplete
      else if truthy (attendanceStatus d) then status d else Absent)"
proof -
  have "\<not> (truthy (attendanceStatus d)
         \<and> the (attendanceStatus d) \<in> set [''on_leave'', ''half_day'', ''work_from_home''])"
    using assms by (cases "attendanceStatus d") (auto simp: truthy_def)
  then show ?thesis
    by (auto simp: finalStatus_def Let_def)
qed

lemma resolvedStatus_preFinal:
  assumes "checkinPass tz wfh od records (attendancePass wfh od att Map.empty) k = Some d0"
      and "attendanceStatus d0 \<notin> {Some ''on_leave'', Some ''half_day'', Some ''work_from_home''}"
  shows "resolvedStatus tz records att wfh od k =
     Some (if insOf tz k records \<noteq> [] \<and> outsOf tz k records \<noteq> [] then
             (if length (outsOf tz k records) \<ge> length (insOf tz k records)
              then Present else Incomplete)
           else if insOf tz k records \<noteq> [] \<or> outsOf tz k records \<noteq> [] then Incomplete
           else if truthy (attendanceStatus d0) then status d0 else Absent)"
  using finalStatus_derived [OF assms(2)] preFinal_events [OF assms(1)] assms(1)
  by (simp add: resolvedStatus_def processAttendanceData_def)

lemma insOf_filed: "insOf tz k records \<noteq> [] \<Longrightarrow> \<exists>e \<in> set records. eventDateKey tz e = Some k"
  by (auto simp: insOf_def filter_empty_conv)

lemma outsOf_filed: "outsOf tz k records \<noteq> [] \<Longrightarrow> \<exists>e \<in> set records. eventDateKey tz e = Some k"
  by (auto simp: outsOf_def filter_empty_conv)

lemma resolvedStatus_no_entry:
  "checkinPass tz wfh od records (attendancePass wfh od att Map.empty) k = None
   \<Longrightarrow> resolvedStatus tz records att wfh od k = None"
  by (simp add: resolvedStatus_def processAttendanceData_def)

text \<open>The resolved status of a date none of whose Attendance records has one of the three
  statuses that the last pass keeps: \<open>rest\<close> is what remains when neither a check-in nor a
  check-out is filed under the date.\<close>

lemma resolvedStatus_derived:
  assumes "\<forall>r \<in> set att. attendance_date r = Some k \<longrightarrow>
             normalizeStatus (att_status r)
               \<notin> {Some ''on_leave'', Some ''half_day'', Some ''work_from_home''}"
  shows "\<exists>rest. resolvedStatus tz records att wfh od k =
     (if insOf tz k records \<noteq> [] \<and> outsOf tz k records \<noteq> [] then
        Some (if length (outsOf tz k records) \<ge> length (insOf tz k records)
              then Present else Incomplete)
      else if insOf tz k records \<noteq> [] \<or> outsOf tz k records \<noteq> [] then Some Incomplete
      else rest)
     \<and> ((\<forall>r \<in> set att. attendance_date r \<noteq> Some k) \<longrightarrow>
          rest = (if \<exists>e \<in> set records. eventDateKey tz e = Some k then Some Absent else None))"
proof (cases "attendancePass wfh od att Map.empty k")
  case None
  show ?thesis
  proof (cases "\<exists>e \<in> set records. eventDateKey tz e = Some k")
    case True
    let ?d0 = "(newDayData wfh od k)\<lparr>checkIns := insOf tz k records,
                                      checkOuts := outsOf tz k records\<rparr>"
    have pre: "checkinPass tz wfh od records (attendancePass wfh od att Map.empty) k = Some ?d0"
      using True by (simp add: preFinal_None [OF None])
    have as: "attendanceStatus ?d0 = None" by (simp add: newDayData_def)
    have not3: "attendanceStatus ?d0
        \<notin> {Some ''on_leave'', Some ''half_day'', Some ''work_from_home''}"
      unfolding as by simp
    have "\<not> truthy (attendanceStatus ?d0)" unfolding as by (simp add: truthy_def)
    then show ?thesis
      using resolvedStatus_preFinal [OF pre not3] True by auto
  next
    case False
    have "checkinPass tz wfh od records (attendancePass wfh od att Map.empty) k = None"
      using False by (simp add: preFinal_None [OF None])
    then have none: "resolvedStatus tz records att wfh od k = None"
      by (rule resolvedStatus_no_entry)
    have "insOf tz k records = []" "outsOf tz k records = []"
      using False insOf_filed [of tz k records] outsOf_filed [of tz k records] by blast+
    then show ?thesis
      using none False by auto
  qed
next
  case (Some d1)
  let ?d0 = "d1\<lparr>checkIns := insOf tz k records, checkOuts := outsOf tz k records\<rparr>"
  have pre: "checkinPass tz wfh od records (attendancePass wfh od att Map.empty) k = Some ?d0"
    by (rule preFinal_Some [OF Some])
  have "attendanceStatus d1 \<in> normalizeStatus ` att_status `
      {x \<in> set att. attendance_date x = Some k}"
    by (rule attendancePass_attendanceStatus [OF Some])
  then have not3: "attendanceStatus ?d0
      \<notin> {Some ''on_leave'', Some ''half_day'', Some ''work_from_home''}"
    using assms by auto
  have rec: "\<not> (\<forall>r \<in> set att. attendance_date r \<noteq> Some k)"
    using Some attendancePass_untouched [of att k wfh od Map.empty] by auto
  show ?thesis
    using resolvedStatus_preFinal [OF pre not3] rec by auto
qed

text \<open>
  Claim C2, as amended. For a date key none of whose Attendance records has the status on
  leave, half day or work from home, with \<open>ins\<close> and \<open>outs\<close> the check-ins and check-outs
  filed under the date: the resolved status is Present when both exist and the check-outs
  are at least as many as the check-ins; Incomplete when both exist and the check-outs are
  fewer, when only check-ins exist, and when only check-outs exist. When neither exists and
  the date has no Attendance record, the status is Absent only if some check-event (of a log
  type that is neither IN nor OUT) is filed under the date; otherwise the date has no entry
  and no status at all. The entry of a date, when there is one, holds exactly \<open>ins\<close> and
  \<open>outs\<close>.
\<close>

theorem derived_status_from_check_events:
  assumes "\<forall>r \<in> set attendanceRecords. attendance_date r = Some key \<longrightarrow>
             normalizeStatus (att_status r)
               \<notin> {Some ''on_leave'', Some ''half_day'', Some ''work_from_home''}"
      and "ins = insOf tz key records" and "outs = outsOf tz key records"
  shows "(ins \<noteq> [] \<and> outs \<noteq> [] \<and> length outs \<ge> length ins \<longrightarrow>
            resolvedStatus tz records attendanceRecords wfh od key = Some Present)
     \<and> (ins \<noteq> [] \<and> outs \<noteq> [] \<and> length outs < length ins \<longrightarrow>
            resolvedStatus tz records attendanceRecords wfh od key = Some Incomplete)
     \<and> (ins \<noteq> [] \<and> outs = [] \<longrightarrow>
            resolvedStatus tz records attendanceRecords wfh od key = Some Incomplete)
     \<and> (ins = [] \<and> outs \<noteq> [] \<longrightarrow>
            resolvedStatus tz records attendanceRecords wfh od key = Some Incomplete)
     \<and> (ins = [] \<and> outs = []
          \<and> (\<forall>r \<in> set attendanceRecords. attendance_date r \<noteq> Some key) \<longrightarrow>
            resolvedStatus tz records attendanceRecords wfh od key
              = (if \<exists>e \<in> set records. eventDateKey tz e = Some key then Some Absent else None))
     \<and> (\<forall>d. processAttendanceData tz records attendanceRecords wfh od key = Some d \<longrightarrow>
            checkIns d = ins \<and> checkOuts d = outs)"
proof -
  from resolvedStatus_derived [OF assms(1), of tz records wfh od] obtain rest where
    eq: "resolvedStatus tz records attendanceRecords wfh od key =
     (if ins \<noteq> [] \<and> outs \<noteq> [] then
        Some (if length outs \<ge> length ins then Present else Incomplete)
      else if ins \<noteq> [] \<or> outs \<noteq> [] then Some Incomplete
      else rest)"
    and rest: "(\<forall>r \<in> set attendanceRecords. attendance_date r \<noteq> Some key) \<longrightarrow>
          rest = (if \<exists>e \<in> set records. eventDateKey tz e = Some key then Some Absent else None)"
    unfolding assms(2,3) by blast
  have lists: "\<forall>d. processAttendanceData tz records attendanceRecords wfh od key = Some d \<longrightarrow>
            checkIns d = ins \<and> checkOuts d = outs"
  proof (intro allI impI)
    fix d
    assume "processAttendanceData tz records attendanceRecords wfh od key = Some d"
    then obtain d0 where
      pre: "checkinPass tz wfh od records (attendancePass wfh od attendanceRecords Map.empty) key
              = Some d0"
      and d: "d = finalStatus d0"
      by (auto simp: processAttendanceData_def)
    show "checkIns d = ins \<and> checkOuts d = outs"
      unfolding d assms(2,3) using preFinal_events [OF pre] by simp
  qed
  from eq rest lists show ?thesis
    by (simp add: not_le)
qed


text \<open>Eight check-events of one week in the time zone UTC+05:30, and the date keys they are
  filed under.\<close>

lemma sample_keys:
  "eventDateKey 330 \<lparr>time = Some ''2024-03-10 09:00:00'', log_type = ''IN''\<rparr> = Some ''2024-03-10''"
  "eventDateKey 330 \<lparr>time = Some ''2024-03-10 18:00:00'', log_type = ''OUT''\<rparr> = Some ''2024-03-10''"
  "eventDateKey 330 \<lparr>time = Some ''2024-03-11 09:00:00'', log_type = ''IN''\<rparr> = Some ''2024-03-11''"
  "eventDateKey 330 \<lparr>time = Some ''2024-03-11 12:00:00'', log_type = ''OUT''\<rparr> = Some ''2024-03-11''"
  "eventDateKey 330 \<lparr>time = Some ''2024-03-11 13:00:00'', log_type = ''IN''\<rparr> = Some ''2024-03-11''"
  "eventDateKey 330 \<lparr>time = Some ''2024-03-12 09:00:00'', log_type = ''IN''\<rparr> = Some ''2024-03-12''"
  "eventDateKey 330 \<lparr>time = Some ''2024-03-13 18:00:00'', log_type = ''OUT''\<rparr> = Some ''2024-03-13''"
  "eventDateKey 330 \<lparr>time = Some ''2024-03-14 09:00:00'', log_type = ''BREAK''\<rparr> = Some ''2024-03-14''"
  by code_simp+

lemma sample_ins:
  "insOf 330 ''2024-03-10'' [\<lparr>time = Some ''2024-03-10 09:00:00'', log_type = ''IN''\<rparr>,
          \<lparr>time = Some ''2024-03-10 18:00:00'', log_type = ''OUT''\<rparr>,
          \<lparr>time = Some ''2024-03-11 09:00:00'', log_type = ''IN''\<rparr>,
          \<lparr>time = Some ''2024-03-11 12:00:00'', log_type = ''OUT''\<rparr>,
          \<lparr>time = Some ''2024-03-11 13:00:00'', log_type = ''IN''\<rparr>,
          \<lparr>time = Some ''2024-03-12 09:00:00'', log_type = ''IN''\<rparr>,
          \<lparr>time = Some ''2024-03-13 18:00:00'', log_type = ''OUT''\<rparr>,
          \<lparr>time = Some ''2024-03-14 09:00:00'', log_type = ''BREAK''\<rparr>] = [''2024-03-10 09:00:00'']"
  "insOf 330 ''2024-03-11'' [\<lparr>time = Some ''2024-03-10 09:00:00'', log_type = ''IN''\<rparr>,
          \<lparr>time = Some ''2024-03-10 18:00:00'', log_type = ''OUT''\<rparr>,
          \<lparr>time = Some ''2024-03-11 09:00:00'', log_type = ''IN''\<rparr>,
          \<lparr>time = Some ''2024-03-11 12:00:00'', log_type = ''OUT''\<rparr>,
          \<lparr>time = Some ''2024-03-11 13:00:00'', log_type = ''IN''\<rparr>,
          \<lparr>time = Some ''2024-03-12 09:00:00'', log_type = ''IN''\<rparr>,
          \<lparr>time = Some ''2024-03-13 18:00:00'', log_type = ''OUT''\<rparr>,
          \<lparr>time = Some ''2024-03-14 09:00:00'', log_type = ''BREAK''\<rparr>] = [''2024-03-11 09:00:00'', ''2024-03-11 13:00:00'']"
  "insOf 330 ''2024-03-12'' [\<lparr>time = Some ''2024-03-10 09:00:00'', log_type = ''IN''\<rparr>,
          \<lparr>time = Some ''2024-03-10 18:00:00'', log_type = ''OUT''\<rparr>,
          \<lparr>time = Some ''2024-03-11 09:00:00'', log_type = ''IN''\<rparr>,
          \<lparr>time = Some ''2024-03-11 12:00:00'', log_type = ''OUT''\<rparr>,
          \<lparr>time = Some ''2024-03-11 13:00:00'', log_type = ''IN''\<rparr>,
          \<lparr>time = Some ''2024-03-12 09:00:00'', log_type = ''IN''\<rparr>,
          \<lparr>time = Some ''2024-03-13 18:00:00'', log_type = ''OUT''\<rparr>,
          \<lparr>time = Some ''2024-03-14 09:00:00'', log_type = ''BREAK''\<rparr>] = [''2024-03-12 09:00:00'']"
  "insOf 330 ''2024-03-13'' [\<lparr>time = Some ''2024-03-10 09:00:00'', log_type = ''IN''\<rparr>,
          \<lparr>time = Some ''2024-03-10 18:00:00'', log_type = ''OUT''\<rparr>,
          \<lparr>time = Some ''2024-03-11 09:00:00'', log_type = ''IN''\<rparr>,
          \<lparr>time = Some ''2024-03-11 12:00:00'', log_type = ''OUT''\<rparr>,
          \<lparr>time = Some ''2024-03-11 13:00:00'', log_type = ''IN''\<rparr>,
          \<lparr>time = Some ''2024-03-12 09:00:00'', log_type = ''IN''\<rparr>,
          \<lparr>time = Some ''2024-03-13 18:00:00'', log_type = ''OUT''\<rparr>,
          \<lparr>time = Some ''2024-03-14 09:00:00'', log_type = ''BREAK''\<rparr>] = []"
  "insOf 330 ''2024-03-14'' [\<lparr>time = Some ''2024-03-10 09:00:00'', log_type = ''IN''\<rparr>,
          \<lparr>time = Some ''2024-03-10 18:00:00'', log_type = ''OUT''\<rparr>,
          \<lparr>time = Some ''2024-03-11 09:00:00'', log_type = ''IN''\<rparr>,
          \<lparr>time = Some ''2024-03-11 12:00:00'', log_type = ''OUT''\<rparr>,
          \<lparr>time = Some ''2024-03-11 13:00:00'', log_type = ''IN''\<rparr>,
          \<lparr>time = Some ''2024-03-12 09:00:00'', log_type = ''IN''\<rparr>,
          \<lparr>time = Some ''2024-03-13 18:00:00'', log_type = ''OUT''\<rparr>,
          \<lparr>time = Some ''2024-03-14 09:00:00'', log_type = ''BREAK''\<rparr>] = []"
  "insOf 330 ''2024-03-15'' [\<lparr>time = Some ''2024-03-10 09:00:00'', log_type = ''IN''\<rparr>,
          \<lparr>time = Some ''2024-03-10 18:00:00'', log_type = ''OUT''\<rparr>,
          \<lparr>time = Some ''2024-03-11 09:00:00'', log_type = ''IN''\<rparr>,
          \<lparr>time = Some ''2024-03-11 12:00:00'', log_type = ''OUT''\<rparr>,
          \<lparr>time = Some ''2024-03-11 13:00:00'', log_type = ''IN''\<rparr>,
          \<lparr>time = Some ''2024-03-12 09:00:00'', log_type = ''IN''\<rparr>,
          \<lparr>time = Some ''2024-03-13 18:00:00'', log_type = ''OUT''\<rparr>,
          \<lparr>time = Some ''2024-03-14 09:00:00'', log_type = ''BREAK''\<rparr>] = []"
  by (simp_all add: insOf_def outsOf_def sample_keys)

lemma sample_outs:
  "outsOf 330 ''2024-03-10'' [\<lparr>time = Some ''2024-03-10 09:00:00'', log_type = ''IN''\<rparr>,
          \<lparr>time = Some ''2024-03-10 18:00:00'', log_type = ''OUT''\<rparr>,
          \<lparr>time = Some ''2024-03-11 09:00:00'', log_type = ''IN''\<rparr>,
          \<lparr>time = Some ''2024-03-11 12:00:00'', log_type = ''OUT''\<rparr>,
          \<lparr>time = Some ''2024-03-11 13:00:00'', log_type = ''IN''\<rparr>,
          \<lparr>time = Some ''2024-03-12 09:00:00'', log_type = ''IN''\<rparr>,
          \<lparr>time = Some ''2024-03-13 18:00:00'', log_type = ''OUT''\<rparr>,
          \<lparr>time = Some ''2024-03-14 09:00:00'', log_type = ''BREAK''\<rparr>] = [''2024-03-10 18:00:00'']"
  "outsOf 330 ''2024-03-11'' [\<lparr>time = Some ''2024-03-10 09:00:00'', log_type = ''IN''\<rparr>,
          \<lparr>time = Some ''2024-03-10 18:00:00'', log_type = ''OUT''\<rparr>,
          \<lparr>time = Some ''2024-03-11 09:00:00'', log_type = ''IN''\<rparr>,
          \<lparr>time = Some ''2024-03-11 12:00:00'', log_type = ''OUT''\<rparr>,
          \<lparr>time = Some ''2024-03-11 13:00:00'', log_type = ''IN''\<rparr>,
          \<lparr>time = Some ''2024-03-12 09:00:00'', log_type = ''IN''\<rparr>,
          \<lparr>time = Some ''2024-03-13 18:00:00'', log_type = ''OUT''\<rparr>,
          \<lparr>time = Some ''2024-03-14 09:00:00'', log_type = ''BREAK''\<rparr>] = [''2024-03-11 12:00:00'']"
  "outsOf 330 ''2024-03-12'' [\<lparr>time = Some ''2024-03-10 09:00:00'', log_type = ''IN''\<rparr>,
          \<lparr>time = Some ''2024-03-10 18:00:00'', log_type = ''OUT''\<rparr>,
          \<lparr>time = Some ''2024-03-11 09:00:00'', log_type = ''IN''\<rparr>,
          \<lparr>time = Some ''2024-03-11 12:00:00'', log_type = ''OUT''\<rparr>,
          \<lparr>time = Some ''2024-03-11 13:00:00'', log_type = ''IN''\<rparr>,
          \<lparr>time = Some ''2024-03-12 09:00:00'', log_type = ''IN''\<rparr>,
          \<lparr>time = Some ''2024-03-13 18:00:00'', log_type = ''OUT''\<rparr>,
          \<lparr>time = Some ''2024-03-14 09:00:00'', log_type = ''BREAK''\<rparr>] = []"
  "outsOf 330 ''2024-03-13'' [\<lparr>time = Some ''2024-03-10 09:00:00'', log_type = ''IN''\<rparr>,
          \<lparr>time = Some ''2024-03-10 18:00:00'', log_type = ''OUT''\<rparr>,
          \<lparr>time = Some ''2024-03-11 09:00:00'', log_type = ''IN''\<rparr>,
          \<lparr>time = Some ''2024-03-11 12:00:00'', log_type = ''OUT''\<rparr>,
          \<lparr>time = Some ''2024-03-11 13:00:00'', log_type = ''IN''\<rparr>,
          \<lparr>time = Some ''2024-03-12 09:00:00'', log_type = ''IN''\<rparr>,
          \<lparr>time = Some ''2024-03-13 18:00:00'', log_type = ''OUT''\<rparr>,
          \<lparr>time = Some ''2024-03-14 09:00:00'', log_type = ''BREAK''\<rparr>] = [''2024-03-13 18:00:00'']"
  "outsOf 330 ''2024-03-14'' [\<lparr>time = Some ''2024-03-10 09:00:00'', log_type = ''IN''\<rparr>,
          \<lparr>time = Some ''2024-03-10 18:00:00'', log_type = ''OUT''\<rparr>,
          \<lparr>time = Some ''2024-03-11 09:00:00'', log_type = ''IN''\<rparr>,
          \<lparr>time = Some ''2024-03-11 12:00:00'', log_type = ''OUT''\<rparr>,
          \<lparr>time = Some ''2024-03-11 13:00:00'', log_type = ''IN''\<rparr>,
          \<lparr>time = Some ''2024-03-12 09:00:00'', log_type = ''IN''\<rparr>,
          \<lparr>time = Some ''2024-03-13 18:00:00'', log_type = ''OUT''\<rparr>,
          \<lparr>time = Some ''2024-03-14 09:00:00'', log_type = ''BREAK''\<rparr>] = []"
  "outsOf 330 ''2024-03-15'' [\<lparr>time = Some ''2024-03-10 09:00:00'', log_type = ''IN''\<rparr>,
          \<lparr>time = Some ''2024-03-10 18:00:00'', log_type = ''OUT''\<rparr>,
          \<lparr>time = Some ''2024-03-11 09:00:00'', log_type = ''IN''\<rparr>,
          \<lparr>time = Some ''2024-03-11 12:00:00'', log_type = ''OUT''\<rparr>,
          \<lparr>time = Some ''2024-03-11 13:00:00'', log_type = ''IN''\<rparr>,
          \<lparr>time = Some ''2024-03-12 09:00:00'', log_type = ''IN''\<rparr>,
          \<lparr>time = Some ''2024-03-13 18:00:00'', log_type = ''OUT''\<rparr>,
          \<lparr>time = Some ''2024-03-14 09:00:00'', log_type = ''BREAK''\<rparr>] = []"
  by (simp_all add: insOf_def outsOf_def sample_keys)

lemma sample_filed:
  "(\<exists>e \<in> set [\<lparr>time = Some ''2024-03-10 09:00:00'', log_type = ''IN''\<rparr>,
          \<lparr>time = Some ''2024-03-10 18:00:00'', log_type = ''OUT''\<rparr>,
          \<lparr>time = Some ''2024-03-11 09:00:00'', log_type = ''IN''\<rparr>,
          \<lparr>time = Some ''2024-03-11 12:00:00'', log_type = ''OUT''\<rparr>,
          \<lparr>time = Some ''2024-03-11 13:00:00'', log_type = ''IN''\<rparr>,
          \<lparr>time = Some ''2024-03-12 09:00:00'', log_type = ''IN''\<rparr>,
          \<lparr>time = Some ''2024-03-13 18:00:00'', log_type = ''OUT''\<rparr>,
          \<lparr>time = Some ''2024-03-14 09:00:00'', log_type = ''BREAK''\<rparr>]. eventDateKey 330 e = Some ''2024-03-14'') = True"
  "(\<exists>e \<in> set [\<lparr>time = Some ''2024-03-10 09:00:00'', log_type = ''IN''\<rparr>,
          \<lparr>time = Some ''2024-03-10 18:00:00'', log_type = ''OUT''\<rparr>,
          \<lparr>time = Some ''2024-03-11 09:00:00'', log_type = ''IN''\<rparr>,
          \<lparr>time = Some ''2024-03-11 12:00:00'', log_type = ''OUT''\<rparr>,
          \<lparr>time = Some ''2024-03-11 13:00:00'', log_type = ''IN''\<rparr>,
          \<lparr>time = Some ''2024-03-12 09:00:00'', log_type = ''IN''\<rparr>,
          \<lparr>time = Some ''2024-03-13 18:00:00'', log_type = ''OUT''\<rparr>,
          \<lparr>time = Some ''2024-03-14 09:00:00'', log_type = ''BREAK''\<rparr>]. eventDateKey 330 e = Some ''2024-03-15'') = False"
  by (simp_all add: sample_keys)

theorem derived_status_from_check_events_witness:
  "resolvedStatus 330 [\<lparr>time = Some ''2024-03-10 09:00:00'', log_type = ''IN''\<rparr>,
          \<lparr>time = Some ''2024-03-10 18:00:00'', log_type = ''OUT''\<rparr>,
          \<lparr>time = Some ''2024-03-11 09:00:00'', log_type = ''IN''\<rparr>,
          \<lparr>time = Some ''2024-03-11 12:00:00'', log_type = ''OUT''\<rparr>,
          \<lparr>time = Some ''2024-03-11 13:00:00'', log_type = ''IN''\<rparr>,
          \<lparr>time = Some ''2024-03-12 09:00:00'', log_type = ''IN''\<rparr>,
          \<lparr>time = Some ''2024-03-13 18:00:00'', log_type = ''OUT''\<rparr>,
          \<lparr>time = Some ''2024-03-14 09:00:00'', log_type = ''BREAK''\<rparr>] [\<lparr>attendance_date = Some ''2024-03-16'', att_status = Some ''On Leave''\<rparr>] {} {} ''2024-03-10'' = Some Present
   \<and> resolvedStatus 330 [\<lparr>time = Some ''2024-03-10 09:00:00'', log_type = ''IN''\<rparr>,
          \<lparr>time = Some ''2024-03-10 18:00:00'', log_type = ''OUT''\<rparr>,
          \<lparr>time = Some ''2024-03-11 09:00:00'', log_type = ''IN''\<rparr>,
          \<lparr>time = Some ''2024-03-11 12:00:00'', log_type = ''OUT''\<rparr>,
          \<lparr>time = Some ''2024-03-11 13:00:00'', log_type = ''IN''\<rparr>,
          \<lparr>time = Some ''2024-03-12 09:00:00'', log_type = ''IN''\<rparr>,
          \<lparr>time = Some ''2024-03-13 18:00:00'', log_type = ''OUT''\<rparr>,
          \<lparr>time = Some ''2024-03-14 09:00:00'', log_type = ''BREAK''\<rparr>] [\<lparr>attendance_date = Some ''2024-03-16'', att_status = Some ''On Leave''\<rparr>] {} {} ''2024-03-11'' = Some Incomplete
   \<and> resolvedStatus 330 [\<lparr>time = Some ''2024-03-10 09:00:00'', log_type = ''IN''\<rparr>,
          \<lparr>time = Some ''2024-03-10 18:00:00'', log_type = ''OUT''\<rparr>,
          \<lparr>time = Some ''2024-03-11 09:00:00'', log_type = ''IN''\<rparr>,
          \<lparr>time = Some ''2024-03-11 12:00:00'', log_type = ''OUT''\<rparr>,
          \<lparr>time = Some ''2024-03-11 13:00:00'', log_type = ''IN''\<rparr>,
          \<lparr>time = Some ''2024-03-12 09:00:00'', log_type = ''IN''\<rparr>,
          \<lparr>time = Some ''2024-03-13 18:00:00'', log_type = ''OUT''\<rparr>,
          \<lparr>time = Some ''2024-03-14 09:00:00'', log_type = ''BREAK''\<rparr>] [\<lparr>attendance_date = Some ''2024-03-16'', att_status = Some ''On Leave''\<rparr>] {} {} ''2024-03-12'' = Some Incomplete
   \<and> resolvedStatus 330 [\<lparr>time = Some ''2024-03-10 09:00:00'', log_type = ''IN''\<rparr>,
          \<lparr>time = Some ''2024-03-10 18:00:00'', log_type = ''OUT''\<rparr>,
          \<lparr>time = Some ''2024-03-11 09:00:00'', log_type = ''IN''\<rparr>,
          \<lparr>time = Some ''2024-03-11 12:00:00'', log_type = ''OUT''\<rparr>,
          \<lparr>time = Some ''2024-03-11 13:00:00'', log_type = ''IN''\<rparr>,
          \<lparr>time = Some ''2024-03-12 09:00:00'', log_type = ''IN''\<rparr>,
          \<lparr>time = Some ''2024-03-13 18:00:00'', log_type = ''OUT''\<rparr>,
          \<lparr>time = Some ''2024-03-14 09:00:00'', log_type = ''BREAK''\<rparr>] [\<lparr>attendance_date = Some ''2024-03-16'', att_status = Some ''On Leave''\<rparr>] {} {} ''2024-03-13'' = Some Incomplete
   \<and> resolvedStatus 330 [\<lparr>time = Some ''2024-03-10 09:00:00'', log_type = ''IN''\<rparr>,
          \<lparr>time = Some ''2024-03-10 18:00:00'', log_type = ''OUT''\<rparr>,
          \<lparr>time = Some ''2024-03-11 09:00:00'', log_type = ''IN''\<rparr>,
          \<lparr>time = Some ''2024-03-11 12:00:00'', log_type = ''OUT''\<rparr>,
          \<lparr>time = Some ''2024-03-11 13:00:00'', log_type = ''IN''\<rparr>,
          \<lparr>time = Some ''2024-03-12 09:00:00'', log_type = ''IN''\<rparr>,
          \<lparr>time = Some ''2024-03-13 18:00:00'', log_type = ''OUT''\<rparr>,
          \<lparr>time = Some ''2024-03-14 09:00:00'', log_type = ''BREAK''\<rparr>] [\<lparr>attendance_date = Some ''2024-03-16'', att_status = Some ''On Leave''\<rparr>] {} {} ''2024-03-14'' = Some Absent
   \<and> resolvedStatus 330 [\<lparr>time = Some ''2024-03-10 09:00:00'', log_type = ''IN''\<rparr>,
          \<lparr>time = Some ''2024-03-10 18:00:00'', log_type = ''OUT''\<rparr>,
          \<lparr>time = Some ''2024-03-11 09:00:00'', log_type = ''IN''\<rparr>,
          \<lparr>time = Some ''2024-03-11 12:00:00'', log_type = ''OUT''\<rparr>,
          \<lparr>time = Some ''2024-03-11 13:00:00'', log_type = ''IN''\<rparr>,
          \<lparr>time = Some ''2024-03-12 09:00:00'', log_type = ''IN''\<rparr>,
          \<lparr>time = Some ''2024-03-13 18:00:00'', log_type = ''OUT''\<rparr>,
          \<lparr>time = Some ''2024-03-14 09:00:00'', log_type = ''BREAK''\<rparr>] [\<lparr>attendance_date = Some ''2024-03-16'', att_status = Some ''On Leave''\<rparr>] {} {} ''2024-03-15'' = None"
proof -
  let ?R = "[\<lparr>time = Some ''2024-03-10 09:00:00'', log_type = ''IN''\<rparr>,
          \<lparr>time = Some ''2024-03-10 18:00:00'', log_type = ''OUT''\<rparr>,
          \<lparr>time = Some ''2024-03-11 09:00:00'', log_type = ''IN''\<rparr>,
          \<lparr>time = Some ''2024-03-11 12:00:00'', log_type = ''OUT''\<rparr>,
          \<lparr>time = Some ''2024-03-11 13:00:00'', log_type = ''IN''\<rparr>,
          \<lparr>time = Some ''2024-03-12 09:00:00'', log_type = ''IN''\<rparr>,
          \<lparr>time = Some ''2024-03-13 18:00:00'', log_type = ''OUT''\<rparr>,
          \<lparr>time = Some ''2024-03-14 09:00:00'', log_type = ''BREAK''\<rparr>]"
  let ?A = "[\<lparr>attendance_date = Some ''2024-03-16'', att_status = Some ''On Leave''\<rparr>]"
  have h: "\<And>key. key \<noteq> ''2024-03-16'' \<Longrightarrow>
      \<forall>r \<in> set ?A. attendance_date r = Some key \<longrightarrow>
        normalizeStatus (att_status r)
          \<notin> {Some ''on_leave'', Some ''half_day'', Some ''work_from_home''}"
    by simp
  have n: "\<And>key. key \<noteq> ''2024-03-16'' \<Longrightarrow> \<forall>r \<in> set ?A. attendance_date r \<noteq> Some key"
    by simp
  have k: "''2024-03-10'' \<noteq> ''2024-03-16''" "''2024-03-11'' \<noteq> ''2024-03-16''"
    "''2024-03-12'' \<noteq> ''2024-03-16''" "''2024-03-13'' \<noteq> ''2024-03-16''"
    "''2024-03-14'' \<noteq> ''2024-03-16''" "''2024-03-15'' \<noteq> ''2024-03-16''"
    by simp_all
  have "resolvedStatus 330 ?R ?A {} {} ''2024-03-10'' = Some Present"
    using derived_status_from_check_events [OF h [OF k(1)] refl refl, of 330 ?R "{}" "{}"]
    by (simp add: sample_ins sample_outs)
  moreover have "resolvedStatus 330 ?R ?A {} {} ''2024-03-11'' = Some Incomplete"
    using derived_status_from_check_events [OF h [OF k(2)] refl refl, of 330 ?R "{}" "{}"]
    by (simp add: sample_ins sample_outs)
  moreover have "resolvedStatus 330 ?R ?A {} {} ''2024-03-12'' = Some Incomplete"
    using derived_status_from_check_events [OF h [OF k(3)] refl refl, of 330 ?R "{}" "{}"]
    by (simp add: sample_ins sample_outs)
  moreover have "resolvedStatus 330 ?R ?A {} {} ''2024-03-13'' = Some Incomplete"
    using derived_status_from_check_events [OF h [OF k(4)] refl refl, of 330 ?R "{}" "{}"]
    by (simp add: sample_ins sample_outs)
  moreover have "resolvedStatus 330 ?R ?A {} {} ''2024-03-14'' = Some Absent"
    using derived_status_from_check_events [OF h [OF k(5)] refl refl, of 330 ?R "{}" "{}"]
      n [OF k(5)]
    by (simp only: sample_ins sample_outs sample_filed) simp
  moreover have "resolvedStatus 330 ?R ?A {} {} ''2024-03-15'' = None"
    using derived_status_from_check_events [OF h [OF k(6)] refl refl, of 330 ?R "{}" "{}"]
      n [OF k(6)]
    by (simp only: sample_ins sample_outs sample_filed) simp
  ultimately show ?thesis by blast
qed

text \<open>
  Claim C2 as stated fails: a date with no Attendance record, no check-in and no check-out
  is not resolved to Absent; it has no entry, hence no status.
\<close>

theorem day_without_data_has_no_status_counterexample:
  "insOf 330 ''2024-03-10'' [\<lparr>time = Some ''2024-03-11 09:00:00'', log_type = ''IN''\<rparr>] = []
   \<and> outsOf 330 ''2024-03-10'' [\<lparr>time = Some ''2024-03-11 09:00:00'', log_type = ''IN''\<rparr>] = []
   \<and> resolvedStatus 330 [\<lparr>time = Some ''2024-03-11 09:00:00'', log_type = ''IN''\<rparr>] [] {} {}
        ''2024-03-10'' = None
   \<and> resolvedStatus 330 [\<lparr>time = Some ''2024-03-11 09:00:00'', log_type = ''IN''\<rparr>] [] {} {}
        ''2024-03-10'' \<noteq> Some Absent"
  by code_simp

lemma setInitialStatus_present_absent:
  "status (setInitialStatus (Some ''present'') d) = Present"
  "status (setInitialStatus (Some ''absent'') d) = Absent"
  by (simp_all add: setInitialStatus_def)

lemma setInitialStatus_unrecognized:
  "st \<notin> {Some ''on_leave'', Some ''half_day'', Some ''work_from_home'', Some ''present'',
           Some ''absent''} \<Longrightarrow> setInitialStatus st d = d"
  by (simp add: setInitialStatus_def)

text \<open>
  Claim C1, as amended. Let the last Attendance record of a date have the status Present or
  Absent. When no check-in and no check-out is filed under the date, the resolved status is
  that of the record. When some are, the resolved status is derived from them and the record
  is overridden: Present when check-ins and check-outs both exist and the check-outs are at
  least as many, Incomplete otherwise.
\<close>

theorem present_absent_record_resolution:
  assumes "attendanceRecords = pre @ r # post"
      and "\<forall>x \<in> set post. attendance_date x \<noteq> Some key"
      and "attendance_date r = Some key" and "key \<noteq> []"
      and "normalizeStatus (att_status r) = Some ''present''
           \<or> normalizeStatus (att_status r) = Some ''absent''"
  shows "resolvedStatus tz records attendanceRecords wfh od key =
     Some (if insOf tz key records = [] \<and> outsOf tz key records = []
           then (if normalizeStatus (att_status r) = Some ''present'' then Present else Absent)
           else if insOf tz key records \<noteq> [] \<and> outsOf tz key records \<noteq> []
                   \<and> length (outsOf tz key records) \<ge> length (insOf tz key records)
           then Present else Incomplete)"
proof -
  let ?st = "normalizeStatus (att_status r)"
  let ?d1 = "setInitialStatus ?st
      ((getOrCreate wfh od (attendancePass wfh od pre Map.empty) key)\<lparr>attendanceStatus := ?st\<rparr>)"
  have att: "attendancePass wfh od attendanceRecords Map.empty key = Some ?d1"
    unfolding assms(1) by (rule attendancePass_last [OF assms(2) assms(3) assms(4)])
  let ?d0 = "?d1\<lparr>checkIns := insOf tz key records, checkOuts := outsOf tz key records\<rparr>"
  have pre: "checkinPass tz wfh od records (attendancePass wfh od attendanceRecords Map.empty) key
      = Some ?d0"
    by (rule preFinal_Some [OF att])
  have as: "attendanceStatus ?d0 = ?st" by simp
  have not3: "attendanceStatus ?d0 \<notin> {Some ''on_leave'', Some ''half_day'', Some ''work_from_home''}"
    using assms(5) unfolding as by auto
  have tr: "truthy (attendanceStatus ?d0)"
    using assms(5) unfolding as by (auto simp: truthy_def)
  have stat: "status ?d0 = (if ?st = Some ''present'' then Present else Absent)"
    using assms(5) by (auto simp: setInitialStatus_def)
  show ?thesis
    unfolding resolvedStatus_preFinal [OF pre not3] using tr stat by auto
qed

theorem present_absent_record_resolution_witness:
  "[\<lparr>attendance_date = Some ''2024-03-10'', att_status = Some ''Absent''\<rparr>]
     = [] @ \<lparr>attendance_date = Some ''2024-03-10'', att_status = Some ''Absent''\<rparr> # []
   \<and> normalizeStatus (Some ''Absent'') = Some ''absent''
   \<and> resolvedStatus 330 []
         [\<lparr>attendance_date = Some ''2024-03-10'', att_status = Some ''Absent''\<rparr>] {} {}
         ''2024-03-10'' = Some Absent"
proof -
  let ?r = "\<lparr>attendance_date = Some ''2024-03-10'', att_status = Some ''Absent''\<rparr>"
  have h1: "[?r] = [] @ ?r # []" by simp
  have h2: "\<forall>x \<in> set ([] :: Attendance list). attendance_date x \<noteq> Some ''2024-03-10''" by simp
  have h3: "attendance_date ?r = Some ''2024-03-10''" by simp
  have h4: "''2024-03-10'' \<noteq> []" by simp
  have n: "normalizeStatus (Some ''Absent'') = Some ''absent''" by code_simp
  then have h5: "normalizeStatus (att_status ?r) = Some ''present''
      \<or> normalizeStatus (att_status ?r) = Some ''absent''" by simp
  show ?thesis
    using present_absent_record_resolution [OF h1 h2 h3 h4 h5, of 330 "[]" "{}" "{}"] n h2
    by (simp add: insOf_def outsOf_def)
qed

text \<open>
  Claim C1 as stated fails: an official Absent record and one check-in without a check-out
  on the same date resolve to Incomplete.
\<close>

theorem absent_record_with_check_in_counterexample:
  "resolvedStatus 330 [\<lparr>time = Some ''2024-03-10 09:00:00'', log_type = ''IN''\<rparr>]
     [\<lparr>attendance_date = Some ''2024-03-10'', att_status = Some ''Absent''\<rparr>] {} {}
     ''2024-03-10'' = Some Incomplete
   \<and> resolvedStatus 330 [\<lparr>time = Some ''2024-03-10 09:00:00'', log_type = ''IN''\<rparr>]
     [\<lparr>attendance_date = Some ''2024-03-10'', att_status = Some ''Absent''\<rparr>] {} {}
     ''2024-03-10'' \<noteq> Some Absent"
  by code_simp

lemma attendancePass_unrecognized:
  assumes "\<forall>x \<in> set xs. attendance_date x = Some k \<longrightarrow>
      normalizeStatus (att_status x) \<notin> {Some ''on_leave'', Some ''half_day'',
        Some ''work_from_home'', Some ''present'', Some ''absent''}"
  shows "attendancePass wfh od xs Map.empty k = Some d \<Longrightarrow> status d = Absent"
  using assms
proof (induction xs arbitrary: d rule: rev_induct)
  case Nil
  then show ?case by (simp add: attendancePass_def)
next
  case (snoc x xs)
  show ?case
  proof (cases "attendance_date x = Some k \<and> k \<noteq> []")
    case True
    then have un: "normalizeStatus (att_status x) \<notin> {Some ''on_leave'', Some ''half_day'',
        Some ''work_from_home'', Some ''present'', Some ''absent''}"
      using snoc.prems(2) by simp
    have "d = (getOrCreate wfh od (attendancePass wfh od xs Map.empty) k)
                 \<lparr>attendanceStatus := normalizeStatus (att_status x)\<rparr>"
      using snoc.prems(1) True
      by (simp add: attendancePass_snoc attendanceStep_same setInitialStatus_unrecognized [OF un])
    moreover have "status (getOrCreate wfh od (attendancePass wfh od xs Map.empty) k) = Absent"
      using snoc.IH snoc.prems(2)
      by (cases "attendancePass wfh od xs Map.empty k") (simp_all add: getOrCreate_def newDayData_def)
    ultimately show ?thesis by simp
  next
    case False
    then have "attendanceStep wfh od (attendancePass wfh od xs Map.empty) x k
        = attendancePass wfh od xs Map.empty k"
      by (auto simp: attendanceStep_def Let_def truthy_def split: option.splits)
    then show ?thesis
      using snoc by (simp add: attendancePass_snoc)
  qed
qed

text \<open>
  Claim C9, as amended. Let a date have Attendance records, none with a status that normalizes
  to one of on_leave, half_day, work_from_home, present, absent. When no check-in and no
  check-out is filed under the date, the resolved status is Absent. When some are, the
  resolved status is derived from them: Present when both exist and the check-outs are at
  least as many as the check-ins, Incomplete otherwise.
\<close>

theorem unrecognized_status_resolution:
  assumes "\<exists>r \<in> set attendanceRecords. attendance_date r = Some key" and "key \<noteq> []"
      and "\<forall>r \<in> set attendanceRecords. attendance_date r = Some key \<longrightarrow>
             normalizeStatus (att_status r) \<notin> {Some ''on_leave'', Some ''half_day'',
               Some ''work_from_home'', Some ''present'', Some ''absent''}"
  shows "resolvedStatus tz records attendanceRecords wfh od key =
     Some (if insOf tz key records = [] \<and> outsOf tz key records = [] then Absent
           else if insOf tz key records \<noteq> [] \<and> outsOf tz key records \<noteq> []
                   \<and> length (outsOf tz key records) \<ge> length (insOf tz key records)
           then Present else Incomplete)"
proof -
  obtain pre r post where split: "attendanceRecords = pre @ r # post"
    and r: "attendance_date r = Some key"
    and post: "\<forall>x \<in> set post. attendance_date x \<noteq> Some key"
    using split_list_last_prop [of attendanceRecords "\<lambda>r. attendance_date r = Some key"] assms(1)
    by blast
  obtain d1 where att: "attendancePass wfh od attendanceRecords Map.empty key = Some d1"
    unfolding split using attendancePass_last [OF post r assms(2)] by blast
  have absent: "status d1 = Absent"
    by (rule attendancePass_unrecognized [OF assms(3) att])
  have "attendanceStatus d1 \<in> normalizeStatus ` att_status `
      {x \<in> set attendanceRecords. attendance_date x = Some key}"
    by (rule attendancePass_attendanceStatus [OF att])
  then have not3: "attendanceStatus d1
      \<notin> {Some ''on_leave'', Some ''half_day'', Some ''work_from_home''}"
    using assms(3) by auto
  let ?d0 = "d1\<lparr>checkIns := insOf tz key records, checkOuts := outsOf tz key records\<rparr>"
  have pre: "checkinPass tz wfh od records (attendancePass wfh od attendanceRecords Map.empty) key
      = Some ?d0"
    by (rule preFinal_Some [OF att])
  have not3': "attendanceStatus ?d0
      \<notin> {Some ''on_leave'', Some ''half_day'', Some ''work_from_home''}"
    using not3 by simp
  show ?thesis
    unfolding resolvedStatus_preFinal [OF pre not3'] using absent by auto
qed

theorem unrecognized_status_resolution_witness:
  "(\<exists>r \<in> set [\<lparr>attendance_date = Some ''2024-03-10'', att_status = Some ''Holiday''\<rparr>].
      attendance_date r = Some ''2024-03-10'')
   \<and> normalizeStatus (Some ''Holiday'') = Some ''holiday''
   \<and> resolvedStatus 330 []
         [\<lparr>attendance_date = Some ''2024-03-10'', att_status = Some ''Holiday''\<rparr>] {} {}
         ''2024-03-10'' = Some Absent"
proof -
  let ?r = "\<lparr>attendance_date = Some ''2024-03-10'', att_status = Some ''Holiday''\<rparr>"
  have h1: "\<exists>r \<in> set [?r]. attendance_date r = Some ''2024-03-10''" by simp
  have h2: "''2024-03-10'' \<noteq> []" by simp
  have n: "normalizeStatus (Some ''Holiday'') = Some ''holiday''" by code_simp
  then have h3: "\<forall>r \<in> set [?r]. attendance_date r = Some ''2024-03-10'' \<longrightarrow>
      normalizeStatus (att_status r) \<notin> {Some ''on_leave'', Some ''half_day'',
        Some ''work_from_home'', Some ''present'', Some ''absent''}" by simp
  show ?thesis
    using unrecognized_status_resolution [OF h1 h2 h3, of 330 "[]" "{}" "{}"] n h1
    by (simp add: insOf_def outsOf_def)
qed

text \<open>
  Claim C9 as stated fails: a date whose Attendance record has the unrecognized status
  Holiday, with one check-in and one check-out, resolves to Present.
\<close>

theorem unrecognized_status_with_events_counterexample:
  "normalizeStatus (Some ''Holiday'') = Some ''holiday''
   \<and> resolvedStatus 330
        [\<lparr>time = Some ''2024-03-10 09:00:00'', log_type = ''IN''\<rparr>,
         \<lparr>time = Some ''2024-03-10 18:00:00'', log_type = ''OUT''\<rparr>]
        [\<lparr>attendance_date = Some ''2024-03-10'', att_status = Some ''Holiday''\<rparr>] {} {}
        ''2024-03-10'' = Some Present
   \<and> resolvedStatus 330
        [\<lparr>time = Some ''2024-03-10 09:00:00'', log_type = ''IN''\<rparr>,
         \<lparr>time = Some ''2024-03-10 18:00:00'', log_type = ''OUT''\<rparr>]
        [\<lparr>attendance_date = Some ''2024-03-10'', att_status = Some ''Holiday''\<rparr>] {} {}
        ''2024-03-10'' \<noteq> Some Absent"
  by code_simp

text \<open>
  Claim C3. The claim says that a check-in is filed under the local calendar date of its
  time. The reconciler files it under the UTC date: in the time zone UTC+05:30 the
  check-in of 2024-03-10 03:00 local time, whose local date key is 2024-03-10, is filed
  under 2024-03-09, and the entry of 2024-03-10 does not exist.
\<close>

theorem check_in_filed_under_utc_date:
  "newDate 330 ''2024-03-10 03:00:00'' = Some 1710019800000
   \<and> localDateKey 330 1710019800000 = ''2024-03-10''
   \<and> eventDateKey 330 \<lparr>time = Some ''2024-03-10 03:00:00'', log_type = ''IN''\<rparr>
       = Some ''2024-03-09''
   \<and> processAttendanceData 330 [\<lparr>time = Some ''2024-03-10 03:00:00'', log_type = ''IN''\<rparr>]
        [] {} {} ''2024-03-10'' = None
   \<and> map_option checkIns
        (processAttendanceData 330 [\<lparr>time = Some ''2024-03-10 03:00:00'', log_type = ''IN''\<rparr>]
           [] {} {} ''2024-03-09'') = Some [''2024-03-10 03:00:00'']"
  by code_simp

section \<open>Properties of the fetch cycle\<close>






section \<open>Properties of the entry submitter\<close>

text \<open>
  Claim C7. When the entry-time text does not match the 12-hour pattern, the submission ends
  with the state as it was and exactly one effect, an alert titled Error: no request is sent
  to the backend.
\<close>

theorem malformed_time_rejected_locally:
  assumes "matchEntryTime (entryTime st) = None"
  shows "fst (handleSubmitEntry tz currentEmployee created order recordsF attendanceF wfhF odF st) = st
     \<and> (\<exists>message.
           snd (handleSubmitEntry tz currentEmployee created order recordsF attendanceF wfhF odF st)
             = [Alert ''Error'' message])
     \<and> filter isNetworkCall
          (snd (handleSubmitEntry tz currentEmployee created order recordsF attendanceF wfhF odF st))
         = []"
  using assms by (simp add: handleSubmitEntry_def isNetworkCall_def)

theorem malformed_time_rejected_locally_witness:
  "matchEntryTime ''25:99'' = None
   \<and> handleSubmitEntry 330 (Some ''HR-EMP-00001'') (Inr ()) [] (Inr None) (Inr None) (Inr None)
        (Inr None)
        (initialState\<lparr>showDialog := True, selectedDate := Some ''2024-03-10'',
           entryTime := ''25:99'', allowedLogType := Some IN\<rparr>)
      = (initialState\<lparr>showDialog := True, selectedDate := Some ''2024-03-10'',
           entryTime := ''25:99'', allowedLogType := Some IN\<rparr>,
         [Alert ''Error''
            ''Please enter time in format HH:MM AM/PM (e.g., 09:30 AM or 05:30 PM)''])"
proof -
  let ?st = "initialState\<lparr>showDialog := True, selectedDate := Some ''2024-03-10'',
           entryTime := ''25:99'', allowedLogType := Some IN\<rparr>"
  have m: "matchEntryTime ''25:99'' = None" by code_simp
  then have h: "matchEntryTime (entryTime ?st) = None" by simp
  have fx: "snd (handleSubmitEntry 330 (Some ''HR-EMP-00001'') (Inr ()) [] (Inr None) (Inr None)
      (Inr None) (Inr None) ?st)
    = [Alert ''Error'' ''Please enter time in format HH:MM AM/PM (e.g., 09:30 AM or 05:30 PM)'']"
    using m by (simp add: handleSubmitEntry_def truthy_def)
  from malformed_time_rejected_locally [OF h, of 330 "Some ''HR-EMP-00001''" "Inr ()" "[]"
      "Inr None" "Inr None" "Inr None" "Inr None"]
  have "fst (handleSubmitEntry 330 (Some ''HR-EMP-00001'') (Inr ()) [] (Inr None) (Inr None)
      (Inr None) (Inr None) ?st) = ?st"
    by blast
  with fx m show ?thesis by (simp add: prod_eq_iff)
qed

lemma match_13_45: "matchEntryTime ''13:45 PM'' = Some (''13'', ''45'', ''PM'')"
  by code_simp

lemma match_11_99: "matchEntryTime ''11:99 AM'' = Some (''11'', ''99'', ''AM'')"
  by code_simp

lemma time24Of_13_45: "time24Of (''13'', ''45'', ''PM'') = ''25:45''"
  by code_simp

lemma time24Of_11_99: "time24Of (''11'', ''99'', ''AM'') = ''11:99''"
  by code_simp

lemma submit_13_45:
  "hd (snd (handleSubmitEntry tz (Some ''HR-EMP-00001'') created order recordsF attendanceF wfhF odF
        (initialState\<lparr>showDialog := True, selectedDate := Some ''2024-03-10'',
           entryTime := ''13:45 PM'', allowedLogType := Some OUT\<rparr>)))
       = CreateDoc ''HR-EMP-00001'' ''2024-03-10 25:45:00'' OUT"
  using match_13_45 time24Of_13_45
  by (cases created) (simp_all add: handleSubmitEntry_def truthy_def Let_def)

lemma submit_11_99:
  "hd (snd (handleSubmitEntry tz (Some ''HR-EMP-00001'') created order recordsF attendanceF wfhF odF
        (initialState\<lparr>showDialog := True, selectedDate := Some ''2024-03-10'',
           entryTime := ''11:99 AM'', allowedLogType := Some IN\<rparr>)))
       = CreateDoc ''HR-EMP-00001'' ''2024-03-10 11:99:00'' IN"
  using match_11_99 time24Of_11_99
  by (cases created) (simp_all add: handleSubmitEntry_def truthy_def Let_def)

text \<open>
  Claim C10. The validation looks at the shape of the text only. The texts "13:45 PM" and
  "11:99 AM" match the pattern; the conversion gives the 24-hour strings "25:45" and
  "11:99"; and, whatever the backend answers, the first effect of the submission is the
  request that creates a check-in record with the time "2024-03-10 25:45:00", respectively
  "2024-03-10 11:99:00".
\<close>

theorem out_of_range_time_is_submitted:
  "matchEntryTime ''13:45 PM'' = Some (''13'', ''45'', ''PM'')
   \<and> time24Of (''13'', ''45'', ''PM'') = ''25:45''
   \<and> hd (snd (handleSubmitEntry tz (Some ''HR-EMP-00001'') created order recordsF attendanceF
        wfhF odF
        (initialState\<lparr>showDialog := True, selectedDate := Some ''2024-03-10'',
           entryTime := ''13:45 PM'', allowedLogType := Some OUT\<rparr>)))
       = CreateDoc ''HR-EMP-00001'' ''2024-03-10 25:45:00'' OUT
   \<and> matchEntryTime ''11:99 AM'' = Some (''11'', ''99'', ''AM'')
   \<and> time24Of (''11'', ''99'', ''AM'') = ''11:99''
   \<and> hd (snd (handleSubmitEntry tz (Some ''HR-EMP-00001'') created order recordsF attendanceF
        wfhF odF
        (initialState\<lparr>showDialog := True, selectedDate := Some ''2024-03-10'',
           entryTime := ''11:99 AM'', allowedLogType := Some IN\<rparr>)))
       = CreateDoc ''HR-EMP-00001'' ''2024-03-10 11:99:00'' IN"
  by (intro conjI match_13_45 match_11_99 time24Of_13_45 time24Of_11_99 submit_13_45
      submit_11_99)

theorem out_of_range_time_is_submitted_witness:
  "hd (snd (handleSubmitEntry 330 (Some ''HR-EMP-00001'') (Inr ()) [] (Inr None) (Inr None)
        (Inr None) (Inr None)
        (initialState\<lparr>showDialog := True, selectedDate := Some ''2024-03-10'',
           entryTime := ''13:45 PM'', allowedLogType := Some OUT\<rparr>)))
       = CreateDoc ''HR-EMP-00001'' ''2024-03-10 25:45:00'' OUT
   \<and> hd (snd (handleSubmitEntry 330 (Some ''HR-EMP-00001'') (Inr ()) [] (Inr None) (Inr None)
        (Inr None) (Inr None)
        (initialState\<lparr>showDialog := True, selectedDate := Some ''2024-03-10'',
           entryTime := ''11:99 AM'', allowedLogType := Some IN\<rparr>)))
       = CreateDoc ''HR-EMP-00001'' ''2024-03-10 11:99:00'' IN"
  using out_of_range_time_is_submitted [of 330 "Inr ()" "[]" "Inr None" "Inr None" "Inr None"
      "Inr None"]
  by blast

section \<open>Properties of the edit-window gate\<close>

text \<open>
  Claim C8. For a tapped day inside the edit window the dialog opens, and the allowed entry
  type follows the day's data, with \<open>ins\<close> and \<open>outs\<close> the check-ins and check-outs of the
  day's entry (none when the day has no entry): IN when the day has neither check-in
  nor check-out, OUT when it has a check-in and no check-out, IN when it has a check-out and
  no check-in, and none when it has both. When it has both, the dialog shows the
  already-complete warning and neither the time input nor the submit button; otherwise it
  shows the time input and the submit button.
\<close>

theorem allowed_entry_type_from_day_data:
  assumes "isWithinLast7Days tz now
             (formatDateKey (getFullYear tz currentMonth) (getMonth tz currentMonth) d)"
      and "ins = (case dayData of None \<Rightarrow> [] | Some dd \<Rightarrow> checkIns dd)"
      and "outs = (case dayData of None \<Rightarrow> [] | Some dd \<Rightarrow> checkOuts dd)"
      and "st' = fst (handleDayClick tz now currentMonth d dayData st)"
  shows "showDialog st'
     \<and> (ins = [] \<and> outs = [] \<longrightarrow> allowedLogType st' = Some IN)
     \<and> (ins \<noteq> [] \<and> outs = [] \<longrightarrow> allowedLogType st' = Some OUT)
     \<and> (ins = [] \<and> outs \<noteq> [] \<longrightarrow> allowedLogType st' = Some IN)
     \<and> (ins \<noteq> [] \<and> outs \<noteq> [] \<longrightarrow> allowedLogType st' = None)
     \<and> dialogView st'
          = (if ins \<noteq> [] \<and> outs \<noteq> []
             then \<lparr>visible = True, alreadyCompleteWarning = True, timeInput = False,
                   submitButton = False\<rparr>
             else \<lparr>visible = True, alreadyCompleteWarning = False, timeInput = True,
                   submitButton = True\<rparr>)"
proof -
  have i: "hasCheckIn dayData \<longleftrightarrow> ins \<noteq> []"
    unfolding assms(2) by (simp add: hasCheckIn_def split: option.splits)
  have o: "hasCheckOut dayData \<longleftrightarrow> outs \<noteq> []"
    unfolding assms(3) by (simp add: hasCheckOut_def split: option.splits)
  show ?thesis
    unfolding assms(4) using assms(1) i o
    by (simp add: handleDayClick_def Let_def dialogView_def)
qed

text \<open>The time value 1710484200000 is 2024-03-15 12:00 in the time zone UTC+05:30.\<close>

lemma gate_2024_03_14: "isWithinLast7Days 330 1710484200000 ''2024-03-14''"
  by code_simp

lemma key_2024_03_14:
  "formatDateKey (getFullYear 330 1710484200000) (getMonth 330 1710484200000) 14 = ''2024-03-14''"
  by code_simp

theorem allowed_entry_type_from_day_data_witness:
  "allowedLogType (fst (handleDayClick 330 1710484200000 1710484200000 14 None initialState))
     = Some IN
   \<and> allowedLogType (fst (handleDayClick 330 1710484200000 1710484200000 14
        (Some \<lparr>date = ''2024-03-14'', checkIns = [''2024-03-14 09:02:00''],
           checkOuts = [], status = Incomplete, attendanceStatus = None, isWFH = False,
           isOD = False\<rparr>) initialState)) = Some OUT
   \<and> allowedLogType (fst (handleDayClick 330 1710484200000 1710484200000 14
        (Some \<lparr>date = ''2024-03-14'', checkIns = [],
           checkOuts = [''2024-03-14 18:05:00''], status = Incomplete, attendanceStatus = None,
           isWFH = False, isOD = False\<rparr>) initialState)) = Some IN
   \<and> allowedLogType (fst (handleDayClick 330 1710484200000 1710484200000 14
        (Some \<lparr>date = ''2024-03-14'', checkIns = [''2024-03-14 09:02:00''],
           checkOuts = [''2024-03-14 18:05:00''], status = Present, attendanceStatus = None,
           isWFH = False, isOD = False\<rparr>) initialState)) = None
   \<and> dialogView (fst (handleDayClick 330 1710484200000 1710484200000 14
        (Some \<lparr>date = ''2024-03-14'', checkIns = [''2024-03-14 09:02:00''],
           checkOuts = [''2024-03-14 18:05:00''], status = Present, attendanceStatus = None,
           isWFH = False, isOD = False\<rparr>) initialState))
       = \<lparr>visible = True, alreadyCompleteWarning = True, timeInput = False,
          submitButton = False\<rparr>"
proof -
  have h: "isWithinLast7Days 330 1710484200000
     (formatDateKey (getFullYear 330 1710484200000) (getMonth 330 1710484200000) 14)"
    using gate_2024_03_14 key_2024_03_14 by simp
  note t = allowed_entry_type_from_day_data [OF h refl refl refl, of _ initialState]
  show ?thesis
    using t [of None]
      t [of "Some \<lparr>date = ''2024-03-14'', checkIns = [''2024-03-14 09:02:00''],
           checkOuts = [], status = Incomplete, attendanceStatus = None, isWFH = False,
           isOD = False\<rparr>"]
      t [of "Some \<lparr>date = ''2024-03-14'', checkIns = [],
           checkOuts = [''2024-03-14 18:05:00''], status = Incomplete, attendanceStatus = None,
           isWFH = False, isOD = False\<rparr>"]
      t [of "Some \<lparr>date = ''2024-03-14'', checkIns = [''2024-03-14 09:02:00''],
           checkOuts = [''2024-03-14 18:05:00''], status = Present, attendanceStatus = None,
           isWFH = False, isOD = False\<rparr>"]
    by simp
qed

text \<open>A tap outside the window changes nothing and has no effect.\<close>

lemma handleDayClick_outside_window:
  "\<not> isWithinLast7Days tz now
       (formatDateKey (getFullYear tz currentMonth) (getMonth tz currentMonth) d)
   \<Longrightarrow> handleDayClick tz now currentMonth d dayData st = (st, [])"
  by (simp add: handleDayClick_def)

text \<open>The gate in terms of day numbers, for a date key that denotes the day \<open>D\<close>. The key is
  read as midnight UTC and then moved to local midnight. East of UTC this is the local
  midnight of the day \<open>D\<close>, and the window is the one of the claim; west of UTC it is the local
  midnight of the day before, and the window is one day late.\<close>

lemma newDate_date_only: "parseYMD s = Some D \<Longrightarrow> newDate tz s = Some (D * msPerDay)"
  by (auto simp: newDate_def parseYMD_def split: if_splits)

lemma isWithinLast7Days_east:
  assumes "0 \<le> tz" and "tz < 1440" and "parseYMD s = Some D"
  shows "isWithinLast7Days tz now s \<longleftrightarrow> localDay tz now - 6 \<le> D \<and> D \<le> localDay tz now"
proof -
  have "(D * 86400000 + tz * 60000) div 86400000 = D"
    using assms(1,2) by (simp add: div_pos_pos_trivial)
  then have sel: "localDay tz (D * msPerDay) = D"
    by (simp add: localDay_def msPerDay_def)
  have "localDay tz now * 86400000 - D * 86400000 = (localDay tz now - D) * 86400000"
    by (simp only: left_diff_distrib)
  then have "(localDay tz now * 86400000 - D * 86400000) div 86400000 = localDay tz now - D"
    by (simp only: nonzero_mult_div_cancel_right [of "86400000 :: int"])
  then show ?thesis
    using sel by (auto simp: isWithinLast7Days_def newDate_date_only [OF assms(3)] setHours0_def
        Let_def msPerDay_def)
qed

lemma isWithinLast7Days_west:
  assumes "- 1440 \<le> tz" and "tz < 0" and "parseYMD s = Some D"
  shows "isWithinLast7Days tz now s \<longleftrightarrow>
     localDay tz now - 6 \<le> D - 1 \<and> D - 1 \<le> localDay tz now"
proof -
  have "(D * 86400000 + tz * 60000) div 86400000 = D - 1"
  proof -
    have "D * 86400000 + tz * 60000 = (D - 1) * 86400000 + (86400000 + tz * 60000)"
      by (simp add: algebra_simps)
    moreover have "0 \<le> 86400000 + tz * 60000" "86400000 + tz * 60000 < 86400000"
      using assms(1,2) by simp_all
    ultimately show ?thesis
      by (simp add: div_pos_pos_trivial)
  qed
  then have sel: "localDay tz (D * msPerDay) = D - 1"
    by (simp add: localDay_def msPerDay_def)
  have "localDay tz now * 86400000 - (D - 1) * 86400000
      = (localDay tz now - (D - 1)) * 86400000"
    by (simp only: left_diff_distrib)
  then have "(localDay tz now * 86400000 - (D - 1) * 86400000) div 86400000
      = localDay tz now - (D - 1)"
    by (simp only: nonzero_mult_div_cancel_right [of "86400000 :: int"])
  then show ?thesis
    using sel by (auto simp: isWithinLast7Days_def newDate_date_only [OF assms(3)] setHours0_def
        Let_def msPerDay_def)
qed

text \<open>The time value 1710522000000 is 2024-03-15 12:00 in the time zone UTC-05:00.\<close>

lemma west_today: "localDateKey (- 300) 1710522000000 = ''2024-03-15''"
  by code_simp

lemma west_key_9:
  "formatDateKey (getFullYear (- 300) 1710522000000) (getMonth (- 300) 1710522000000) 9
     = ''2024-03-09''"
  by code_simp

lemma west_key_16:
  "formatDateKey (getFullYear (- 300) 1710522000000) (getMonth (- 300) 1710522000000) 16
     = ''2024-03-16''"
  by code_simp

lemma west_gate_9: "\<not> isWithinLast7Days (- 300) 1710522000000 ''2024-03-09''"
  by code_simp

lemma west_gate_16: "isWithinLast7Days (- 300) 1710522000000 ''2024-03-16''"
  by code_simp

text \<open>
  Claim C4. The claim says that the dialog opens exactly for the days from today - 6 to
  today. On a device in the time zone UTC-05:00, with today = 2024-03-15, the gate rejects
  2024-03-09 (six days before today: the tap changes nothing), and accepts 2024-03-16
  (tomorrow: the dialog opens).
\<close>

theorem edit_window_shifted_west_of_utc:
  "localDateKey (- 300) 1710522000000 = ''2024-03-15''
   \<and> formatDateKey (getFullYear (- 300) 1710522000000) (getMonth (- 300) 1710522000000) 9
       = ''2024-03-09''
   \<and> \<not> isWithinLast7Days (- 300) 1710522000000 ''2024-03-09''
   \<and> handleDayClick (- 300) 1710522000000 1710522000000 9 None initialState = (initialState, [])
   \<and> formatDateKey (getFullYear (- 300) 1710522000000) (getMonth (- 300) 1710522000000) 16
       = ''2024-03-16''
   \<and> isWithinLast7Days (- 300) 1710522000000 ''2024-03-16''
   \<and> showDialog (fst (handleDayClick (- 300) 1710522000000 1710522000000 16 None initialState))"
  using west_today west_key_9 west_key_16 west_gate_9 west_gate_16
  by (simp add: handleDayClick_def)

section \<open>Properties of the calendar grid builder\<close>

lemma padWeek_eq: "padWeek w = w @ replicate (7 - length w) None"
proof (induction w rule: padWeek.induct)
  case (1 w)
  show ?case
  proof (cases "length w < 7")
    case True
    then have "7 - length w = Suc (7 - length (w @ [None]))" by simp
    then have "replicate (7 - length w) (None :: 'a option)
        = None # replicate (7 - length (w @ [None])) None"
      by (simp only: replicate_Suc)
    then show ?thesis
      using 1 True by (subst padWeek.simps) simp
  next
    case False
    then show ?thesis by (subst padWeek.simps) simp
  qed
qed

lemma grid_loop:
  assumes "length cw \<le> 7" and "\<forall>w \<in> set weeks. length w = 7"
  shows "case foldl (gridStep y m pd) (weeks, cw) ds of
           (weeks', cw') \<Rightarrow>
             (\<forall>w \<in> set weeks'. length w = 7) \<and> length cw' \<le> 7
             \<and> concat weeks' @ cw' = concat weeks @ cw @ map (dayCell y m pd) ds
             \<and> (cw \<noteq> [] \<or> ds \<noteq> [] \<longrightarrow> cw' \<noteq> [])"
  using assms
proof (induction ds arbitrary: weeks cw)
  case Nil
  then show ?case by simp
next
  case (Cons d ds)
  show ?case
  proof (cases "length cw = 7")
    case True
    have step: "gridStep y m pd (weeks, cw) d = (weeks @ [cw], [dayCell y m pd d])"
      using True by (simp add: gridStep_def)
    have "length [dayCell y m pd d] \<le> 7" by simp
    moreover have "\<forall>w \<in> set (weeks @ [cw]). length w = 7"
      using Cons.prems(2) True by simp
    ultimately show ?thesis
      using Cons.IH [of "[dayCell y m pd d]" "weeks @ [cw]"]
      by (simp add: step split: prod.splits)
  next
    case False
    have step: "gridStep y m pd (weeks, cw) d = (weeks, cw @ [dayCell y m pd d])"
      using False by (simp add: gridStep_def)
    have "length (cw @ [dayCell y m pd d]) \<le> 7"
      using False Cons.prems(1) by simp
    then show ?thesis
      using Cons.IH [of "cw @ [dayCell y m pd d]" weeks] Cons.prems(2)
      by (simp add: step split: prod.splits)
  qed
qed

lemma buildGrid_shape:
  assumes "0 \<le> s" and "s \<le> 6" and "1 \<le> n"
  shows "(\<forall>row \<in> set (buildGrid y m pd s n). length row = 7)
     \<and> (\<exists>t<7. concat (buildGrid y m pd s n)
            = replicate (nat s) None @ map (dayCell y m pd) [1..n] @ replicate t None)"
proof -
  obtain weeks' cw' where loop:
    "foldl (gridStep y m pd) ([], replicate (nat s) None) [1..n] = (weeks', cw')"
    by (cases "foldl (gridStep y m pd) ([], replicate (nat s) None) [1..n]")
  have "length (replicate (nat s) (None :: DayInfo option)) \<le> 7" using assms(2) by simp
  moreover have "\<forall>w \<in> set ([] :: DayInfo option list list). length w = 7" by simp
  ultimately have inv: "(\<forall>w \<in> set weeks'. length w = 7) \<and> length cw' \<le> 7
      \<and> concat weeks' @ cw' = replicate (nat s) None @ map (dayCell y m pd) [1..n]
      \<and> (replicate (nat s) (None :: DayInfo option) \<noteq> [] \<or> [1..n] \<noteq> [] \<longrightarrow> cw' \<noteq> [])"
    using grid_loop [of "replicate (nat s) None" "[]" y m pd "[1..n]"] loop by simp
  have "[1..n] \<noteq> []" using assms(3) by simp
  then have ne: "cw' \<noteq> []" using inv by blast
  have grid: "buildGrid y m pd s n = weeks' @ [cw' @ replicate (7 - length cw') None]"
    by (simp add: buildGrid_def loop padWeek_eq)
  have rows: "\<forall>row \<in> set (buildGrid y m pd s n). length row = 7"
    using inv by (auto simp: grid)
  have "concat (buildGrid y m pd s n)
      = (concat weeks' @ cw') @ replicate (7 - length cw') None"
    by (simp add: grid)
  also have "\<dots> = replicate (nat s) None @ map (dayCell y m pd) [1..n]
      @ replicate (7 - length cw') None"
    using inv by simp
  finally have cc: "concat (buildGrid y m pd s n)
      = replicate (nat s) None @ map (dayCell y m pd) [1..n] @ replicate (7 - length cw') None" .
  have "7 - length cw' < 7" using ne by (cases cw') simp_all
  with cc rows show ?thesis by blast
qed

lemma civil_from_days_day_ge_1: "1 \<le> snd (snd (civil_from_days z))"
proof -
  obtain y doy where yd: "yearFromMarch z = (y, doy)"
    by (cases "yearFromMarch z")
  have le: "(153 * ((5 * doy + 2) div 153) + 2) div 5 \<le> doy"
    by linarith
  have "snd (snd (civil_from_days z)) = doy - (153 * ((5 * doy + 2) div 153) + 2) div 5 + 1"
    unfolding civil_from_days_def yd by (simp only: Let_def prod.case snd_conv)
  with le show ?thesis by linarith
qed

lemma getDate_ge_1: "1 \<le> getDate tz t"
  unfolding getDate_def by (rule civil_from_days_day_ge_1)

lemma getDay_range: "0 \<le> getDay tz t \<and> getDay tz t \<le> 6"
proof -
  have "0 \<le> (localDay tz t + 4) mod 7" by simp
  moreover have "(localDay tz t + 4) mod 7 < 7" by simp
  ultimately show ?thesis unfolding getDay_def by linarith
qed


lemma buildGrid_6_31:
  "buildGrid y m pd 6 31 =
     [replicate 6 None @ [dayCell y m pd 1],
      map (dayCell y m pd) [2..8],
      map (dayCell y m pd) [9..15],
      map (dayCell y m pd) [16..22],
      map (dayCell y m pd) [23..29],
      map (dayCell y m pd) [30..31] @ replicate 5 None]"
proof -
  have u: "[1..31::int] = 1 # [2..31]"
    by (subst upto_rec1) simp_all
  show ?thesis
    unfolding buildGrid_def u by (simp add: gridStep_def padWeek_eq)
qed

text \<open>
  Claim C5. For the viewed month, with \<open>s\<close> the weekday index of its first day (0 = Sunday)
  and \<open>n\<close> the number of its days as the builder computes them, \<open>s\<close> is between 0 and 6 and
  \<open>n\<close> is at least 1. Every row of the grid has 7 cells. The cells of the grid, row after row,
  are \<open>s\<close> empty cells, then for each of the days 1 to \<open>n\<close> one non-empty cell that carries the
  day number, the date key of the day and the entry of the processed data under this key,
  then fewer than 7 empty cells. For a month of 31 days that starts on a Saturday the grid is
  6 rows, the first with 6 leading empty cells and day 1, the last with the days 30 and 31 and
  5 trailing empty cells.
\<close>

theorem calendar_grid_layout:
  assumes "year = getFullYear tz currentMonth"
      and "month = getMonth tz currentMonth"
      and "s = getDay tz (newDateYMD tz year month 1)"
      and "n = getDate tz (newDateYMD tz year (month + 1) 0)"
      and "grid = renderCalendarGrid tz currentMonth pd"
      and "key = (\<lambda>d. String year @ ''-'' @ padStart 2 (String (month + 1)) @ ''-''
                      @ padStart 2 (String d))"
      and "cell = (\<lambda>d. Some \<lparr>day = d, dateKey = key d, data = pd (key d)\<rparr>)"
  shows "0 \<le> s \<and> s \<le> 6 \<and> 1 \<le> n
     \<and> (\<forall>row \<in> set grid. length row = 7)
     \<and> (\<exists>t<7. concat grid = replicate (nat s) None @ map cell [1..n] @ replicate t None)
     \<and> (s = 6 \<and> n = 31 \<longrightarrow>
          grid = [replicate 6 None @ [cell 1],
                  map cell [2..8],
                  map cell [9..15],
                  map cell [16..22],
                  map cell [23..29],
                  map cell [30..31] @ replicate 5 None])"
proof -
  have cell: "cell = dayCell year month pd"
    unfolding assms(7) assms(6) by (simp add: dayCell_def formatDateKey_def fun_eq_iff)
  have grid: "grid = buildGrid year month pd s n"
    unfolding assms(5) renderCalendarGrid_def Let_def assms(1-4) ..
  have s: "0 \<le> s" "s \<le> 6"
    unfolding assms(3) using getDay_range by simp_all
  have n: "1 \<le> n"
    unfolding assms(4) by (rule getDate_ge_1)
  from buildGrid_shape [OF s n, of year month pd] buildGrid_6_31 [of year month pd] s n
  show ?thesis unfolding grid cell by blast
qed

text \<open>The time value 1742020200000 is 2025-03-15 12:00 in the time zone UTC+05:30; March
  2025 has 31 days and starts on a Saturday.\<close>

lemma march_2025:
  "getFullYear 330 1742020200000 = 2025" "getMonth 330 1742020200000 = 2"
  "getDay 330 (newDateYMD 330 2025 2 1) = 6" "getDate 330 (newDateYMD 330 2025 (2 + 1) 0) = 31"
  by code_simp+

lemma march_2025_keys:
  "String 2025 @ ''-'' @ padStart 2 (String (2 + 1)) @ ''-'' @ padStart 2 (String 1) = ''2025-03-01''"
  "String 2025 @ ''-'' @ padStart 2 (String (2 + 1)) @ ''-'' @ padStart 2 (String 31) = ''2025-03-31''"
  by code_simp+

theorem calendar_grid_layout_witness:
  "map (map (map_option day))
     (renderCalendarGrid 330 1742020200000
        [''2025-03-01'' \<mapsto> \<lparr>date = ''2025-03-01'', checkIns = [''2025-03-01 09:00:00''],
           checkOuts = [], status = Incomplete, attendanceStatus = None, isWFH = False,
           isOD = False\<rparr>])
     = [[None, None, None, None, None, None, Some 1],
        [Some 2, Some 3, Some 4, Some 5, Some 6, Some 7, Some 8],
        [Some 9, Some 10, Some 11, Some 12, Some 13, Some 14, Some 15],
        [Some 16, Some 17, Some 18, Some 19, Some 20, Some 21, Some 22],
        [Some 23, Some 24, Some 25, Some 26, Some 27, Some 28, Some 29],
        [Some 30, Some 31, None, None, None, None, None]]
   \<and> renderCalendarGrid 330 1742020200000
        [''2025-03-01'' \<mapsto> \<lparr>date = ''2025-03-01'', checkIns = [''2025-03-01 09:00:00''],
           checkOuts = [], status = Incomplete, attendanceStatus = None, isWFH = False,
           isOD = False\<rparr>] ! 0 ! 6
     = Some \<lparr>day = 1, dateKey = ''2025-03-01'',
         data = Some \<lparr>date = ''2025-03-01'', checkIns = [''2025-03-01 09:00:00''],
           checkOuts = [], status = Incomplete, attendanceStatus = None, isWFH = False,
           isOD = False\<rparr>\<rparr>
   \<and> renderCalendarGrid 330 1742020200000
        [''2025-03-01'' \<mapsto> \<lparr>date = ''2025-03-01'', checkIns = [''2025-03-01 09:00:00''],
           checkOuts = [], status = Incomplete, attendanceStatus = None, isWFH = False,
           isOD = False\<rparr>] ! 5 ! 1
     = Some \<lparr>day = 31, dateKey = ''2025-03-31'', data = None\<rparr>"
proof -
  let ?pd = "[''2025-03-01'' \<mapsto> \<lparr>date = ''2025-03-01'', checkIns = [''2025-03-01 09:00:00''],
           checkOuts = [], status = Incomplete, attendanceStatus = None, isWFH = False,
           isOD = False\<rparr>]"
  let ?key = "\<lambda>d. String 2025 @ ''-'' @ padStart 2 (String (2 + 1)) @ ''-''
                      @ padStart 2 (String d)"
  let ?cell = "\<lambda>d. Some \<lparr>day = d, dateKey = ?key d, data = ?pd (?key d)\<rparr>"
  let ?grid = "renderCalendarGrid 330 1742020200000 ?pd"
  have y: "2025 = getFullYear 330 1742020200000" and m: "2 = getMonth 330 1742020200000"
    and s: "6 = getDay 330 (newDateYMD 330 2025 2 1)"
    and n: "31 = getDate 330 (newDateYMD 330 2025 (2 + 1) 0)"
    using march_2025 by simp_all
  from calendar_grid_layout [OF y m s n refl refl refl, of ?pd]
  have G: "?grid = [replicate 6 None @ [?cell 1], map ?cell [2..8], map ?cell [9..15],
      map ?cell [16..22], map ?cell [23..29], map ?cell [30..31] @ replicate 5 None]"
    by blast
  have days: "map (map (map_option day)) ?grid
     = [[None, None, None, None, None, None, Some 1],
        [Some 2, Some 3, Some 4, Some 5, Some 6, Some 7, Some 8],
        [Some 9, Some 10, Some 11, Some 12, Some 13, Some 14, Some 15],
        [Some 16, Some 17, Some 18, Some 19, Some 20, Some 21, Some 22],
        [Some 23, Some 24, Some 25, Some 26, Some 27, Some 28, Some 29],
        [Some 30, Some 31, None, None, None, None, None]]"
    unfolding G by (simp add: eval_nat_numeral)
  have first: "?grid ! 0 ! 6 = ?cell 1"
    unfolding G by (simp add: eval_nat_numeral nth_append)
  have last: "?grid ! 5 ! 1 = ?cell 31"
    unfolding G by (simp add: eval_nat_numeral nth_append)
  have c1: "?cell 1 = Some \<lparr>day = 1, dateKey = ''2025-03-01'',
         data = Some \<lparr>date = ''2025-03-01'', checkIns = [''2025-03-01 09:00:00''],
           checkOuts = [], status = Incomplete, attendanceStatus = None, isWFH = False,
           isOD = False\<rparr>\<rparr>"
    unfolding march_2025_keys by simp
  have c31: "?cell 31 = Some \<lparr>day = 31, dateKey = ''2025-03-31'', data = None\<rparr>"
    unfolding march_2025_keys by simp
  show ?thesis
    unfolding first last c1 c31 using days by simp
qed

end
